theory Spec2Isabelle
  imports Main
begin

section \<open>The CSI node service of csi-baremetal\<close>

text \<open>
  A shallow embedding of the node-side volume lifecycle handlers (package \<open>node\<close>):
  \<open>NodeStageVolume\<close>, \<open>NodeUnstageVolume\<close>, \<open>NodePublishVolume\<close>,
  \<open>NodeUnpublishVolume\<close>, and their helpers \<open>unmount\<close>, \<open>prepareAndPerformMount\<close>,
  \<open>createInlineVolume\<close> and \<open>constructPartition\<close>.

  The handlers run one at a time here: the mutexes \<open>reqMu\<close> and \<open>dCacheMu\<close> and the
  processes that refresh the caches from outside are not part of the model. Every
  collaborator (storage-class implementer, linux utilities, k8s client, volume
  operations, capacity provider) is a deterministic black box: its answer is a function
  of the list of all calls made so far and of the arguments of the call, so a
  collaborator may answer differently each time it is asked.
\<close>

subsection \<open>Errors\<close>

text \<open>gRPC status codes used by the handlers (\<open>google.golang.org/grpc/codes\<close>).\<close>

datatype code = InvalidArgument | NotFound | Internal | Unimplemented

text \<open>
  A Go \<open>error\<close> value: \<open>status.Error(code, msg)\<close>, a plain error made by
  \<open>fmt.Errorf\<close>, a Kubernetes API error for which \<open>k8sError.IsNotFound\<close> holds, or a
  run-time panic (nil dereference).
\<close>

datatype err =
    StatusError code string
  | PlainError string
  | K8sNotFound string
  | Panic string

fun IsNotFound :: "err \<Rightarrow> bool" where
  "IsNotFound (K8sNotFound _) = True"
| "IsNotFound _ = False"

subsection \<open>Data model\<close>

text \<open>
  Modelled from the spec: the status constants of package \<open>api/v1\<close> (\<open>apiV1.Creating\<close>,
  \<open>apiV1.Created\<close>, \<open>apiV1.VolumeReady\<close>, \<open>apiV1.Published\<close>, \<open>apiV1.Failed\<close>,
  \<open>apiV1.Removed\<close>) are missing; the spec lists the lifecycle statuses Creating,
  Created, Ready, Published, Failed and Removed. The source keeps the status as a string
  and compares it with these constants only; here each constant is a constructor and any
  other string is kept under \<open>OtherStatus\<close>.
\<close>

datatype csi_status =
  Creating | Created | VolumeReady | Published | Failed | Removed | OtherStatus string

text \<open>
  Modelled from the spec: the storage class constants of package \<open>api/v1\<close> are missing;
  the spec has the plain-drive classes HDD, SSD, NVMe and "any", and two classes backed
  by a volume group, one of which needs the name of its group translated
  (\<open>apiV1.StorageClassSSDLVG\<close> in the source). Any other string is kept under
  \<open>OtherClass\<close>.
\<close>

datatype storage_class =
    StorageClassHDD | StorageClassSSD | StorageClassNVMe | StorageClassAny
  | StorageClassHDDLVG | StorageClassSSDLVG | OtherClass string

text \<open>\<open>api.Volume\<close>; the field \<open>Id\<close> is written \<open>Id_v\<close>.\<close>

record volume =
  Id_v :: string
  Location :: string
  StorageClass :: storage_class
  NodeId :: string
  Size :: int
  CSIStatus :: csi_status
  Mode :: string
  Type :: string
  Ephemeral :: bool
  Owners :: "string list"

text \<open>
  Modelled from the spec: \<open>api.Drive\<close> is not in the source at hand; the spec describes
  it as a read-only snapshot of a drive (identifier, rotational flag, type).
\<close>

record drive =
  UUID :: string
  IsRotational :: bool
  DriveType :: string

text \<open>\<open>type SCName string\<close>: the name under which a storage-class implementer is kept.\<close>

datatype SCName = SCName string

text \<open>
  The access type of a CSI volume capability: a mount access (whose \<open>Mount\<close> message,
  holding the file system type, may be nil), a block access, or none.
\<close>

datatype access_type = AccessMount "string option" | AccessBlock | AccessNil

record volume_capability =
  AccessType :: access_type

text \<open>
  The fields the handlers read from the four CSI request messages. A request that lacks
  a field has it empty (\<open>None\<close>, the empty string, the empty map), as the generated
  getters return.
\<close>

record request =
  VolumeCapability :: "volume_capability option"
  VolumeId :: string
  StagingTargetPath :: string
  TargetPath :: string
  VolumeContext :: "string \<rightharpoonup> string"

subsection \<open>Collaborator calls\<close>

text \<open>
  One constructor for each call the handlers make outside their own code, with its
  arguments; the calls on a storage-class implementer carry the name of the
  implementer. \<open>Sleep\<close> is the pause \<open>time.Sleep(SleepBetweenRetriesToSyncPartTable)\<close>
  of \<open>constructPartition\<close>. \<open>Mount\<close> takes its options as a list (a variadic
  parameter in Go).
\<close>

datatype call =
    CreateTargetPath SCName string
  | IsMountPoint SCName string
  | Mount SCName string string "string list"
  | DeleteTargetPath SCName string
  | Unmount SCName string
  | GetVGNameByLVGCRName string
  | SearchDrivePath drive
  | GetPartitionUUID string
  | Sleep
  | GetPartitionNameByUUID string string
  | CreateVolume volume
  | WaitStatus string "csi_status list"
  | DeleteVolume string
  | UpdateCRsAfterVolumeDeletion string
  | DeleteIfEmpty string
  | AddVolumeOwner string string
  | ClearVolumeOwners string

text \<open>
  The state of the service: the two caches of the volume manager and the log of the
  calls made to collaborators, oldest first.
\<close>

record state =
  volumesCache :: "string \<rightharpoonup> volume"
  drivesCache :: "string \<rightharpoonup> drive"
  calls :: "call list"

text \<open>
  The environment: what each collaborator answers, given the calls made before. The
  last fields are functions of this repository and of the Go library that are not in
  the source at hand and are taken as parameters: \<open>getStorageClassImpl\<close>,
  \<open>base.StrToBytes\<close>, \<open>base.ConvertStorageClass\<close>, \<open>util.GetVolumeUUID\<close> (its error
  is dropped by the caller) and \<open>strings.ToLower\<close>.
\<close>

record env =
  sc_CreateTargetPath :: "call list \<Rightarrow> SCName \<Rightarrow> string \<Rightarrow> err option"
  sc_IsMountPoint :: "call list \<Rightarrow> SCName \<Rightarrow> string \<Rightarrow> err + bool"
  sc_Mount :: "call list \<Rightarrow> SCName \<Rightarrow> string \<Rightarrow> string \<Rightarrow> string list \<Rightarrow> err option"
  sc_Unmount :: "call list \<Rightarrow> SCName \<Rightarrow> string \<Rightarrow> err option"
  k8s_GetVGNameByLVGCRName :: "call list \<Rightarrow> string \<Rightarrow> err + string"
  lu_SearchDrivePath :: "call list \<Rightarrow> drive \<Rightarrow> err + string"
  lu_GetPartitionUUID :: "call list \<Rightarrow> string \<Rightarrow> err + string"
  lu_GetPartitionNameByUUID :: "call list \<Rightarrow> string \<Rightarrow> string \<Rightarrow> err + string"
  svc_CreateVolume :: "call list \<Rightarrow> volume \<Rightarrow> err + volume"
  svc_WaitStatus :: "call list \<Rightarrow> string \<Rightarrow> csi_status list \<Rightarrow> err option"
  svc_DeleteVolume :: "call list \<Rightarrow> string \<Rightarrow> err option"
  ac_DeleteIfEmpty :: "call list \<Rightarrow> string \<Rightarrow> err option"
  vm_addVolumeOwner :: "call list \<Rightarrow> string \<Rightarrow> string \<Rightarrow> err option"
  vm_clearVolumeOwners :: "call list \<Rightarrow> string \<Rightarrow> err option"
  getStorageClassImpl :: "storage_class \<Rightarrow> SCName"
  StrToBytes :: "string \<Rightarrow> err + int"
  ConvertStorageClass :: "string \<Rightarrow> storage_class"
  GetVolumeUUID :: "string \<Rightarrow> string"
  ToLower :: "string \<Rightarrow> string"

definition emit :: "call \<Rightarrow> state \<Rightarrow> state" where
  "emit c s = s\<lparr>calls := calls s @ [c]\<rparr>"

subsection \<open>Constants of the source\<close>

definition PodNameKey :: string where
  "PodNameKey = ''csi.storage.k8s.io/pod.name''"

definition EphemeralKey :: string where
  "EphemeralKey = ''csi.storage.k8s.io/ephemeral''"

definition DefaultFsType :: string where
  "DefaultFsType = ''xfs''"

definition StorageTypeKey :: string where
  "StorageTypeKey = ''storageType''"

definition SizeKey :: string where
  "SizeKey = ''size''"

text \<open>
  Modelled from the spec: \<open>apiV1.ModeFS\<close> is not in the source at hand; it is the
  access mode "filesystem" of a volume.
\<close>

definition ModeFS :: string where
  "ModeFS = ''FS''"

text \<open>
  \<open>strconv.ParseBool\<close> of the Go library: it accepts exactly these twelve spellings, and
  returns \<open>false\<close> along with an error for any other string. The caller only logs the
  error, whose text is not modelled.
\<close>

definition ParseBool :: "string \<Rightarrow> err + bool" where
  "ParseBool str =
     (if str \<in> set [''1'', ''t'', ''T'', ''TRUE'', ''true'', ''True''] then Inr True
      else if str \<in> set [''0'', ''f'', ''F'', ''FALSE'', ''false'', ''False''] then Inr False
      else Inl (PlainError ''invalid syntax''))"

subsection \<open>The volume manager\<close>

text \<open>
  The methods of \<open>VolumeManager\<close> that the handlers call are not in the source at hand;
  each is modelled from what the spec says of it. The locks they take are left out.
\<close>

text \<open>
  Modelled from the spec: \<open>VolumeManager.getFromVolumeCache\<close> is missing; the spec has
  a "volume-cache (Id \<open>\<rightarrow>\<close> Volume)" in which the handlers look a volume up, and the
  callers test the second result (\<open>ok\<close>) for absence.
\<close>

definition getFromVolumeCache :: "string \<Rightarrow> state \<Rightarrow> volume option" where
  "getFromVolumeCache key s = volumesCache s key"

text \<open>
  Modelled from the spec: \<open>VolumeManager.setVolumeStatus\<close> is missing; the spec says the
  handlers write "the resulting status back through VolumeManager" and that the volume
  cache is "mutated on every status transition". It returns nothing; with no entry
  under the id there is nothing to update.
\<close>

definition setVolumeStatus :: "string \<Rightarrow> csi_status \<Rightarrow> state \<Rightarrow> state" where
  "setVolumeStatus volumeID newStatus s =
     (case volumesCache s volumeID of
        None \<Rightarrow> s
      | Some v \<Rightarrow> s\<lparr>volumesCache := (volumesCache s)(volumeID \<mapsto> v\<lparr>CSIStatus := newStatus\<rparr>)\<rparr>)"

text \<open>
  Modelled from the spec: \<open>VolumeManager.addVolumeOwner\<close> is missing; the spec says that
  Publish "best-effort records the consuming workload's identity into Owners" with
  "failure only logged", and that \<open>len(Owners)\<close> is the number of workloads holding the
  volume, so a pod already recorded is not recorded twice. The method can fail: for a
  volume that is not in the cache, or when the environment says so (\<open>vm_addVolumeOwner\<close>),
  and then nothing is recorded.
\<close>

definition addVolumeOwner :: "env \<Rightarrow> string \<Rightarrow> string \<Rightarrow> state \<Rightarrow> err option \<times> state" where
  "addVolumeOwner e volumeID podName s =
     (let s1 = emit (AddVolumeOwner volumeID podName) s in
      case volumesCache s volumeID of
        None \<Rightarrow> (Some (PlainError ''volume is not in the cache''), s1)
      | Some v \<Rightarrow>
          (case vm_addVolumeOwner e (calls s) volumeID podName of
             Some er \<Rightarrow> (Some er, s1)
           | None \<Rightarrow>
               (None, s1\<lparr>volumesCache := (volumesCache s)(volumeID \<mapsto>
                  v\<lparr>Owners := (if podName \<in> set (Owners v) then Owners v
                                 else Owners v @ [podName])\<rparr>)\<rparr>)))"

text \<open>
  Modelled from the spec: \<open>VolumeManager.clearVolumeOwners\<close> is missing; the spec says
  that Unstage "clears the volume's Owners set on a best-effort basis: failure here is
  logged only". It fails as \<open>addVolumeOwner\<close> does (\<open>vm_clearVolumeOwners\<close>), and then
  nothing is cleared.
\<close>

definition clearVolumeOwners :: "env \<Rightarrow> string \<Rightarrow> state \<Rightarrow> err option \<times> state" where
  "clearVolumeOwners e volumeID s =
     (let s1 = emit (ClearVolumeOwners volumeID) s in
      case volumesCache s volumeID of
        None \<Rightarrow> (Some (PlainError ''volume is not in the cache''), s1)
      | Some v \<Rightarrow>
          (case vm_clearVolumeOwners e (calls s) volumeID of
             Some er \<Rightarrow> (Some er, s1)
           | None \<Rightarrow>
               (None, s1\<lparr>volumesCache := (volumesCache s)(volumeID \<mapsto> v\<lparr>Owners := []\<rparr>)\<rparr>)))"

subsection \<open>Calling a collaborator\<close>

text \<open>Each call is answered from the calls made before it, and then logged.\<close>

definition scCreateTargetPath :: "env \<Rightarrow> SCName \<Rightarrow> string \<Rightarrow> state \<Rightarrow> err option \<times> state" where
  "scCreateTargetPath e scImpl path s =
     (sc_CreateTargetPath e (calls s) scImpl path, emit (CreateTargetPath scImpl path) s)"

definition scIsMountPoint :: "env \<Rightarrow> SCName \<Rightarrow> string \<Rightarrow> state \<Rightarrow> (err + bool) \<times> state" where
  "scIsMountPoint e scImpl path s =
     (sc_IsMountPoint e (calls s) scImpl path, emit (IsMountPoint scImpl path) s)"

definition scMount ::
  "env \<Rightarrow> SCName \<Rightarrow> string \<Rightarrow> string \<Rightarrow> string list \<Rightarrow> state \<Rightarrow> err option \<times> state" where
  "scMount e scImpl src dst opts s =
     (sc_Mount e (calls s) scImpl src dst opts, emit (Mount scImpl src dst opts) s)"

definition scDeleteTargetPath :: "env \<Rightarrow> SCName \<Rightarrow> string \<Rightarrow> state \<Rightarrow> state" where
  "scDeleteTargetPath e scImpl path s = emit (DeleteTargetPath scImpl path) s"

definition scUnmount :: "env \<Rightarrow> SCName \<Rightarrow> string \<Rightarrow> state \<Rightarrow> err option \<times> state" where
  "scUnmount e scImpl path s =
     (sc_Unmount e (calls s) scImpl path, emit (Unmount scImpl path) s)"

definition k8sGetVGNameByLVGCRName :: "env \<Rightarrow> string \<Rightarrow> state \<Rightarrow> (err + string) \<times> state" where
  "k8sGetVGNameByLVGCRName e name s =
     (k8s_GetVGNameByLVGCRName e (calls s) name, emit (GetVGNameByLVGCRName name) s)"

definition luSearchDrivePath :: "env \<Rightarrow> drive \<Rightarrow> state \<Rightarrow> (err + string) \<times> state" where
  "luSearchDrivePath e d s =
     (lu_SearchDrivePath e (calls s) d, emit (SearchDrivePath d) s)"

definition luGetPartitionUUID :: "env \<Rightarrow> string \<Rightarrow> state \<Rightarrow> (err + string) \<times> state" where
  "luGetPartitionUUID e bdev s =
     (lu_GetPartitionUUID e (calls s) bdev, emit (GetPartitionUUID bdev) s)"

definition luGetPartitionNameByUUID ::
  "env \<Rightarrow> string \<Rightarrow> string \<Rightarrow> state \<Rightarrow> (err + string) \<times> state" where
  "luGetPartitionNameByUUID e bdev uuid s =
     (lu_GetPartitionNameByUUID e (calls s) bdev uuid, emit (GetPartitionNameByUUID bdev uuid) s)"

definition svcCreateVolume :: "env \<Rightarrow> volume \<Rightarrow> state \<Rightarrow> (err + volume) \<times> state" where
  "svcCreateVolume e v s = (svc_CreateVolume e (calls s) v, emit (CreateVolume v) s)"

definition svcWaitStatus ::
  "env \<Rightarrow> string \<Rightarrow> csi_status list \<Rightarrow> state \<Rightarrow> err option \<times> state" where
  "svcWaitStatus e volumeID statuses s =
     (svc_WaitStatus e (calls s) volumeID statuses, emit (WaitStatus volumeID statuses) s)"

definition svcDeleteVolume :: "env \<Rightarrow> string \<Rightarrow> state \<Rightarrow> err option \<times> state" where
  "svcDeleteVolume e volumeID s =
     (svc_DeleteVolume e (calls s) volumeID, emit (DeleteVolume volumeID) s)"

definition svcUpdateCRsAfterVolumeDeletion :: "env \<Rightarrow> string \<Rightarrow> state \<Rightarrow> state" where
  "svcUpdateCRsAfterVolumeDeletion e volumeID s = emit (UpdateCRsAfterVolumeDeletion volumeID) s"

definition acDeleteIfEmpty :: "env \<Rightarrow> string \<Rightarrow> state \<Rightarrow> err option \<times> state" where
  "acDeleteIfEmpty e location s =
     (ac_DeleteIfEmpty e (calls s) location, emit (DeleteIfEmpty location) s)"

subsection \<open>Mounting and unmounting\<close>

text \<open>\<open>unmount\<close>: any failure of the implementer becomes one internal error.\<close>

definition unmount :: "env \<Rightarrow> storage_class \<Rightarrow> string \<Rightarrow> state \<Rightarrow> err option \<times> state" where
  "unmount e storageClass path s =
     (let scImpl = getStorageClassImpl e storageClass in
      case scUnmount e scImpl path s of
        (Some er, s1) \<Rightarrow> (Some (StatusError Internal ''Unable to unmount''), s1)
      | (None, s1) \<Rightarrow> (None, s1))"

text \<open>
  \<open>prepareAndPerformMount\<close>: \<open>opts\<close> is one string, empty unless \<open>bind\<close>, and is
  passed as the only variadic argument of \<open>Mount\<close>.
\<close>

definition prepareAndPerformMount ::
  "env \<Rightarrow> string \<Rightarrow> string \<Rightarrow> SCName \<Rightarrow> bool \<Rightarrow> state \<Rightarrow> err option \<times> state" where
  "prepareAndPerformMount e srcPath targetPath scImpl bind s =
     (case scCreateTargetPath e scImpl targetPath s of
        (Some er, s1) \<Rightarrow> (Some er, s1)
      | (None, s1) \<Rightarrow>
          (case scIsMountPoint e scImpl targetPath s1 of
             (Inl er, s2) \<Rightarrow> (Some er, scDeleteTargetPath e scImpl targetPath s2)
           | (Inr mounted, s2) \<Rightarrow>
               if mounted then (None, s2)
               else
                 (let opts = (if bind then ''--bind'' else '''') in
                  case scMount e scImpl srcPath targetPath [opts] s2 of
                    (Some er, s3) \<Rightarrow> (Some er, scDeleteTargetPath e scImpl targetPath s3)
                  | (None, s3) \<Rightarrow> (None, s3))))"

subsection \<open>Resolving the device path\<close>

definition constructPartition :: "env \<Rightarrow> volume \<Rightarrow> state \<Rightarrow> (err + string) \<times> state" where
  "constructPartition e volume s =
     (if StorageClass volume = StorageClassHDDLVG \<or> StorageClass volume = StorageClassSSDLVG then
        (if StorageClass volume = StorageClassSSDLVG then
           (case k8sGetVGNameByLVGCRName e (Location volume) s of
              (Inl er, s1) \<Rightarrow> (Inl er, s1)
            | (Inr vgName, s1) \<Rightarrow> (Inr (''/dev/'' @ vgName @ ''/'' @ Id_v volume), s1))
         else (Inr (''/dev/'' @ Location volume @ ''/'' @ Id_v volume), s))
      else
        (case drivesCache s (Location volume) of
           None \<Rightarrow>
             (Inl (PlainError (''drive with uuid '' @ Location volume @ '' wasn't found '')), s)
         | Some drive \<Rightarrow>
             (case luSearchDrivePath e drive s of
                (Inl er, s1) \<Rightarrow>
                  (Inl (StatusError Internal
                     (''unable to find device for drive with S/N '' @ Location volume)), s1)
              | (Inr bdev, s1) \<Rightarrow>
                  (let uuid = GetVolumeUUID e (Id_v volume) in
                   if Ephemeral volume then
                     (case luGetPartitionUUID e bdev s1 of
                        (Inl er, s2) \<Rightarrow>
                          (Inl (StatusError Internal
                             (''unable to find partition by device '' @ bdev)), s2)
                      | (Inr uuid', s2) \<Rightarrow>
                          luGetPartitionNameByUUID e bdev uuid' (emit Sleep s2))
                   else luGetPartitionNameByUUID e bdev uuid s1))))"

subsection \<open>Staging and unstaging\<close>

definition NodeStageVolume :: "env \<Rightarrow> request \<Rightarrow> state \<Rightarrow> (err + unit) \<times> state" where
  "NodeStageVolume e req s =
     (if VolumeCapability req = None then
        (Inl (StatusError InvalidArgument ''Volume capability missing in request''), s)
      else if length (VolumeId req) = 0 then
        (Inl (StatusError InvalidArgument ''Volume ID missing in request''), s)
      else if length (StagingTargetPath req) = 0 then
        (Inl (StatusError InvalidArgument ''Stage Path missing in request''), s)
      else
        (let volumeID = VolumeId req in
         case getFromVolumeCache volumeID s of
           None \<Rightarrow>
             (Inl (StatusError NotFound (''No volume with ID '' @ volumeID @ '' found on node'')), s)
         | Some v \<Rightarrow>
             if CSIStatus v = Failed then
               (Inl (PlainError (''corresponding volume CR '' @ Id_v v @ '' reached failed status'')), s)
             else
               (let scImpl = getStorageClassImpl e (StorageClass v);
                    targetPath = StagingTargetPath req in
                case constructPartition e v s of
                  (Inl er, s1) \<Rightarrow> (Inl (StatusError Internal ''failed to publish volume''), s1)
                | (Inr part, s1) \<Rightarrow>
                    if CSIStatus v = VolumeReady then
                      (case scMount e scImpl part targetPath [] s1 of
                         (Some er, s2) \<Rightarrow>
                           (Inl (PlainError (''failed to stage volume '' @ Id_v v)), s2)
                       | (None, s2) \<Rightarrow> (Inr (), s2))
                    else
                      (case prepareAndPerformMount e part targetPath scImpl False s1 of
                         (Some er, s2) \<Rightarrow>
                           (Inl (PlainError ''failed to stage volume''),
                            setVolumeStatus (VolumeId req) Failed s2)
                       | (None, s2) \<Rightarrow>
                           (Inr (), setVolumeStatus (VolumeId req) VolumeReady s2)))))"

definition NodeUnstageVolume :: "env \<Rightarrow> request \<Rightarrow> state \<Rightarrow> (err + unit) \<times> state" where
  "NodeUnstageVolume e req s =
     (if length (VolumeId req) = 0 then
        (Inl (StatusError InvalidArgument ''Volume ID missing in request''), s)
      else if length (StagingTargetPath req) = 0 then
        (Inl (StatusError InvalidArgument ''Stage Path missing in request''), s)
      else
        (case getFromVolumeCache (VolumeId req) s of
           None \<Rightarrow> (Inl (StatusError Internal ''Unable to find volume''), s)
         | Some v \<Rightarrow>
             if CSIStatus v = Failed then
               (Inl (StatusError Internal
                  (''corresponding CR '' @ Id_v v @ '' reached Failed status'')), s)
             else
               (let s1 = snd (clearVolumeOwners e (VolumeId req) s) in
                case unmount e (StorageClass v) (StagingTargetPath req) s1 of
                  (Some er, s2) \<Rightarrow> (Inl er, setVolumeStatus (Id_v v) Failed s2)
                | (None, s2) \<Rightarrow> (Inr (), s2))))"

subsection \<open>Publishing and unpublishing\<close>

text \<open>
  \<open>createInlineVolume\<close>: the volume capability was checked by the caller; without one,
  or with a mount access whose \<open>Mount\<close> message is nil, the Go code dereferences nil.
\<close>

definition createInlineVolume ::
  "env \<Rightarrow> string \<Rightarrow> string \<Rightarrow> request \<Rightarrow> state \<Rightarrow> (err + volume) \<times> state" where
  "createInlineVolume e nodeID volumeID req s =
     (let volumeContext = VolumeContext req;
          bytesStr = (case volumeContext SizeKey of None \<Rightarrow> '''' | Some x \<Rightarrow> x) in
      case StrToBytes e bytesStr of
        Inl er \<Rightarrow> (Inl er, s)
      | Inr bytes \<Rightarrow>
          (case VolumeCapability req of
             None \<Rightarrow> (Inl (Panic ''nil pointer dereference''), s)
           | Some cap \<Rightarrow>
               (case (case AccessType cap of
                        AccessMount None \<Rightarrow> Inl (Panic ''nil pointer dereference'')
                      | AccessMount (Some fs) \<Rightarrow>
                          Inr (if ToLower e fs = '''' then DefaultFsType else ToLower e fs, ModeFS)
                      | _ \<Rightarrow> Inr (''None'', '''')) of
                  Inl er \<Rightarrow> (Inl er, s)
                | Inr (fsType, mode) \<Rightarrow>
                    (let sc0 = ConvertStorageClass e
                                 (case volumeContext StorageTypeKey of None \<Rightarrow> '''' | Some x \<Rightarrow> x);
                         sc = (if sc0 = StorageClassAny then StorageClassHDD else sc0) in
                     case svcCreateVolume e
                            \<lparr>Id_v = volumeID, Location = '''', StorageClass = sc, NodeId = nodeID,
                             Size = bytes, CSIStatus = OtherStatus '''', Mode = mode,
                             Type = fsType, Ephemeral = True, Owners = []\<rparr> s of
                       (Inl er, s1) \<Rightarrow> (Inl er, s1)
                     | (Inr vol, s1) \<Rightarrow>
                         (case (if CSIStatus vol = Creating
                                then svcWaitStatus e (Id_v vol) [Failed, Created] s1
                                else (None, s1)) of
                            (Some er, s2) \<Rightarrow> (Inl er, s2)
                          | (None, s2) \<Rightarrow>
                              (Inr vol, snd (acDeleteIfEmpty e (Location vol) s2)))))))"

text \<open>
  Lines 276-290 of \<open>NodePublishVolume\<close>: the ephemeral flag of the volume context. A
  value that does not parse is logged and leaves \<open>inline\<close> false.
\<close>

definition inlineFlag :: "request \<Rightarrow> bool" where
  "inlineFlag req =
     (case VolumeContext req EphemeralKey of
        None \<Rightarrow> False
      | Some val \<Rightarrow> (case ParseBool val of Inl er \<Rightarrow> False | Inr b \<Rightarrow> b))"

text \<open>
  Lines 292-311 of \<open>NodePublishVolume\<close>: where the mount source comes from. The result
  is an early return (error and state), or \<open>srcPath\<close>, \<open>bind\<close> and the state reached.
\<close>

definition publishSource ::
  "env \<Rightarrow> string \<Rightarrow> request \<Rightarrow> state \<Rightarrow> (err \<times> state) + (string \<times> bool \<times> state)" where
  "publishSource e nodeID req s =
     (let srcPath = StagingTargetPath req;
          volumeID = VolumeId req in
      if inlineFlag req then
        (case createInlineVolume e nodeID volumeID req s of
           (Inl er, s1) \<Rightarrow> Inl (StatusError Internal ''failed to publish volume'', s1)
         | (Inr vol, s1) \<Rightarrow>
             (case constructPartition e vol s1 of
                (Inl er, s2) \<Rightarrow> Inl (StatusError Internal ''failed to publish volume'', s2)
              | (Inr part, s2) \<Rightarrow> Inr (part, False, s2)))
      else if length srcPath = 0 then
        Inl (StatusError InvalidArgument ''Staging Path missing in request'', s)
      else Inr (srcPath, True, s))"

text \<open>
  \<open>NodePublishVolume\<close>; \<open>nodeID\<close> is the field \<open>NodeID\<close> of the service.
\<close>

definition NodePublishVolume ::
  "env \<Rightarrow> string \<Rightarrow> request \<Rightarrow> state \<Rightarrow> (err + unit) \<times> state" where
  "NodePublishVolume e nodeID req s =
     (if VolumeCapability req = None then
        (Inl (StatusError InvalidArgument ''Volume capability missing in request''), s)
      else if length (VolumeId req) = 0 then
        (Inl (StatusError InvalidArgument ''Volume ID missing in request''), s)
      else if length (TargetPath req) = 0 then
        (Inl (StatusError InvalidArgument ''Target Path missing in request''), s)
      else
        (let path = TargetPath req;
             volumeID = VolumeId req in
         case publishSource e nodeID req s of
           Inl (er, s2) \<Rightarrow> (Inl er, s2)
         | Inr (srcPath, bind, s2) \<Rightarrow>
             (case getFromVolumeCache volumeID s2 of
                None \<Rightarrow> (Inl (StatusError Internal ''Unable to find volume''), s2)
              | Some v \<Rightarrow>
                  (let s3 = (case VolumeContext req PodNameKey of
                               None \<Rightarrow> s2
                             | Some podName \<Rightarrow> snd (addVolumeOwner e volumeID podName s2)) in
                   if CSIStatus v = Failed then
                     (Inl (PlainError
                        (''corresponding volume CR '' @ Id_v v @ '' reached failed status'')), s3)
                   else
                     (let scImpl = getStorageClassImpl e (StorageClass v) in
                      case prepareAndPerformMount e srcPath path scImpl bind s3 of
                        (Some er, s4) \<Rightarrow>
                          (Inl (PlainError ''failed to publish volume''),
                           setVolumeStatus (Id_v v) Failed s4)
                      | (None, s4) \<Rightarrow> (Inr (), setVolumeStatus (Id_v v) Published s4))))))"

definition NodeUnpublishVolume :: "env \<Rightarrow> request \<Rightarrow> state \<Rightarrow> (err + unit) \<times> state" where
  "NodeUnpublishVolume e req s =
     (if length (VolumeId req) = 0 then
        (Inl (StatusError InvalidArgument ''Volume ID missing in request''), s)
      else if length (TargetPath req) = 0 then
        (Inl (StatusError InvalidArgument ''Target Path missing in request''), s)
      else
        (case getFromVolumeCache (VolumeId req) s of
           None \<Rightarrow> (Inl (StatusError NotFound ''Unable to find volume''), s)
         | Some v \<Rightarrow>
             (case unmount e (StorageClass v) (TargetPath req) s of
                (Some er, s1) \<Rightarrow> (Inl er, setVolumeStatus (Id_v v) Failed s1)
              | (None, s1) \<Rightarrow>
                  if length (Owners v) > 1 then (Inr (), s1)
                  else
                    (let s2 = setVolumeStatus (Id_v v) VolumeReady s1 in
                     case getFromVolumeCache (VolumeId req) s2 of
                       None \<Rightarrow> (Inl (StatusError InvalidArgument ''Volume not found''), s2)
                     | Some volume \<Rightarrow>
                         if Ephemeral volume then
                           (case svcDeleteVolume e (VolumeId req) s2 of
                              (Some er, s3) \<Rightarrow>
                                if IsNotFound er then (Inr (), s3) else (Inl er, s3)
                            | (None, s3) \<Rightarrow>
                                (case svcWaitStatus e (VolumeId req) [Failed, Removed] s3 of
                                   (Some er, s4) \<Rightarrow>
                                     (Inl (StatusError Internal ''Unable to delete volume''), s4)
                                 | (None, s4) \<Rightarrow>
                                     (Inr (),
                                      svcUpdateCRsAfterVolumeDeletion e (VolumeId req) s4)))
                         else (Inr (), s2)))))"

subsection \<open>Example environment, state and requests\<close>

text \<open>
  An environment in which every collaborator succeeds, a cache with one volume on one
  drive, and a request for that volume. The closed theorems below evaluate the handlers
  on them and on variations of them.
\<close>

definition okEnv :: env where
  "okEnv =
     \<lparr>sc_CreateTargetPath = (\<lambda>h i p. None),
      sc_IsMountPoint = (\<lambda>h i p. Inr False),
      sc_Mount = (\<lambda>h i src dst opts. None),
      sc_Unmount = (\<lambda>h i p. None),
      k8s_GetVGNameByLVGCRName = (\<lambda>h n. Inr ''root-vg''),
      lu_SearchDrivePath = (\<lambda>h d. Inr ''/dev/sda''),
      lu_GetPartitionUUID = (\<lambda>h bdev. Inr ''uuid-1''),
      lu_GetPartitionNameByUUID = (\<lambda>h bdev uuid. Inr (bdev @ ''1'')),
      svc_CreateVolume = (\<lambda>h v. Inr (v\<lparr>Location := ''drive-uuid-1'', CSIStatus := Created\<rparr>)),
      svc_WaitStatus = (\<lambda>h i sts. None),
      svc_DeleteVolume = (\<lambda>h i. None),
      ac_DeleteIfEmpty = (\<lambda>h l. None),
      vm_addVolumeOwner = (\<lambda>h i p. None),
      vm_clearVolumeOwners = (\<lambda>h i. None),
      getStorageClassImpl = (\<lambda>c. if c = StorageClassSSD then SCName ''ssd'' else SCName ''hdd''),
      StrToBytes = (\<lambda>str. Inr 1024),
      ConvertStorageClass = (\<lambda>str. StorageClassAny),
      GetVolumeUUID = (\<lambda>i. i),
      ToLower = (\<lambda>str. str)\<rparr>"

definition vol1 :: volume where
  "vol1 = \<lparr>Id_v = ''v1'', Location = ''drive-uuid-1'', StorageClass = StorageClassHDD,
           NodeId = ''node-1'', Size = 1024, CSIStatus = Created, Mode = ''FS'',
           Type = ''xfs'', Ephemeral = False, Owners = []\<rparr>"

definition drive1 :: drive where
  "drive1 = \<lparr>UUID = ''drive-uuid-1'', IsRotational = True, DriveType = ''HDD''\<rparr>"

definition st1 :: state where
  "st1 = \<lparr>volumesCache = [''v1'' \<mapsto> vol1], drivesCache = [''drive-uuid-1'' \<mapsto> drive1],
          calls = []\<rparr>"

definition req1 :: request where
  "req1 = \<lparr>VolumeCapability = Some \<lparr>AccessType = AccessMount (Some ''xfs'')\<rparr>,
      VolumeId = ''v1'', StagingTargetPath = ''/stage'', TargetPath = ''/target'',
      VolumeContext = [PodNameKey \<mapsto> ''podA'']\<rparr>"

section \<open>Properties\<close>

subsection \<open>Auxiliary facts\<close>

lemmas call_defs = scCreateTargetPath_def scIsMountPoint_def scMount_def
  scDeleteTargetPath_def scUnmount_def k8sGetVGNameByLVGCRName_def luSearchDrivePath_def
  luGetPartitionUUID_def luGetPartitionNameByUUID_def svcCreateVolume_def svcWaitStatus_def
  svcDeleteVolume_def svcUpdateCRsAfterVolumeDeletion_def acDeleteIfEmpty_def

lemmas example_defs = okEnv_def vol1_def drive1_def st1_def req1_def

lemma emit_fields [simp]:
  "volumesCache (emit c s) = volumesCache s"
  "drivesCache (emit c s) = drivesCache s"
  "calls (emit c s) = calls s @ [c]"
  by (simp_all add: emit_def)

lemma setVolumeStatus_fields [simp]:
  "drivesCache (setVolumeStatus i st s) = drivesCache s"
  "calls (setVolumeStatus i st s) = calls s"
  by (simp_all add: setVolumeStatus_def split: option.splits)

lemma setVolumeStatus_cache:
  "volumesCache (setVolumeStatus i st s) =
     (case volumesCache s i of None \<Rightarrow> volumesCache s
      | Some v \<Rightarrow> (volumesCache s)(i \<mapsto> v\<lparr>CSIStatus := st\<rparr>))"
  by (simp add: setVolumeStatus_def split: option.splits)

text \<open>Resolving a path, mounting and creating an inline volume leave both caches alone.\<close>

lemma constructPartition_caches [simp]:
  "volumesCache (snd (constructPartition e v s)) = volumesCache s"
  "drivesCache (snd (constructPartition e v s)) = drivesCache s"
  by (simp_all add: constructPartition_def call_defs Let_def split: option.splits sum.splits)

lemma prepareAndPerformMount_caches [simp]:
  "volumesCache (snd (prepareAndPerformMount e src tgt i b s)) = volumesCache s"
  "drivesCache (snd (prepareAndPerformMount e src tgt i b s)) = drivesCache s"
  by (simp_all add: prepareAndPerformMount_def call_defs Let_def split: option.splits sum.splits)

lemma createInlineVolume_tail:
  "volumesCache (snd (case svcCreateVolume e V s of
       (Inl er, s1) \<Rightarrow> (Inl er, s1)
     | (Inr vol, s1) \<Rightarrow>
         (case (if CSIStatus vol = Creating
                then svcWaitStatus e (Id_v vol) [Failed, Created] s1
                else (None, s1)) of
            (Some er, s2) \<Rightarrow> (Inl er, s2)
          | (None, s2) \<Rightarrow> (Inr vol, snd (acDeleteIfEmpty e (Location vol) s2))))) = volumesCache s
   \<and> drivesCache (snd (case svcCreateVolume e V s of
       (Inl er, s1) \<Rightarrow> (Inl er, s1)
     | (Inr vol, s1) \<Rightarrow>
         (case (if CSIStatus vol = Creating
                then svcWaitStatus e (Id_v vol) [Failed, Created] s1
                else (None, s1)) of
            (Some er, s2) \<Rightarrow> (Inl er, s2)
          | (None, s2) \<Rightarrow> (Inr vol, snd (acDeleteIfEmpty e (Location vol) s2))))) = drivesCache s"
  by (simp add: call_defs split: sum.splits option.splits)

lemma createInlineVolume_caches [simp]:
  "volumesCache (snd (createInlineVolume e n i req s)) = volumesCache s"
  "drivesCache (snd (createInlineVolume e n i req s)) = drivesCache s"
  by (simp_all add: createInlineVolume_def Let_def createInlineVolume_tail split del: if_split
      split: option.splits sum.splits access_type.splits)

lemma constructPartition_cachesD:
  "constructPartition e v s = (r, s') \<Longrightarrow>
     volumesCache s' = volumesCache s \<and> drivesCache s' = drivesCache s"
  using constructPartition_caches [of e v s] by simp

lemma prepareAndPerformMount_cachesD:
  "prepareAndPerformMount e src tgt i b s = (r, s') \<Longrightarrow>
     volumesCache s' = volumesCache s \<and> drivesCache s' = drivesCache s"
  using prepareAndPerformMount_caches [of e src tgt i b s] by simp

lemma createInlineVolume_cachesD:
  "createInlineVolume e n i req s = (r, s') \<Longrightarrow>
     volumesCache s' = volumesCache s \<and> drivesCache s' = drivesCache s"
  using createInlineVolume_caches [of e n i req s] by simp

lemma publishSource_caches:
  "publishSource e n req s = Inr (src, b, s2) \<Longrightarrow>
     volumesCache s2 = volumesCache s \<and> drivesCache s2 = drivesCache s"
  "publishSource e n req s = Inl (er, s2) \<Longrightarrow>
     volumesCache s2 = volumesCache s \<and> drivesCache s2 = drivesCache s"
  by (auto simp add: publishSource_def Let_def split: if_splits prod.splits sum.splits
      dest!: createInlineVolume_cachesD constructPartition_cachesD)

lemma unmount_eq:
  "unmount e c p s =
     (case sc_Unmount e (calls s) (getStorageClassImpl e c) p of
        Some er \<Rightarrow> Some (StatusError Internal ''Unable to unmount'')
      | None \<Rightarrow> None,
      emit (Unmount (getStorageClassImpl e c) p) s)"
  by (simp add: unmount_def call_defs Let_def split: option.splits)

subsection \<open>A volume missing from the cache\<close>

text \<open>
  C5. For a request that passes the argument checks and whose volume id is not in the
  volume cache, \<open>NodeStageVolume\<close> returns a status error with code \<open>NotFound\<close> and
  \<open>NodeUnstageVolume\<close> returns a status error with code \<open>Internal\<close>; neither changes
  the state.
\<close>

theorem stage_unstage_missing_volume:
  assumes "volumesCache s (VolumeId req) = None"
    and "VolumeCapability req \<noteq> None"
    and "VolumeId req \<noteq> []"
    and "StagingTargetPath req \<noteq> []"
  shows "NodeStageVolume e req s =
           (Inl (StatusError NotFound (''No volume with ID '' @ VolumeId req @ '' found on node'')), s)
       \<and> NodeUnstageVolume e req s = (Inl (StatusError Internal ''Unable to find volume''), s)"
  using assms by (simp add: NodeStageVolume_def NodeUnstageVolume_def getFromVolumeCache_def)

theorem stage_unstage_missing_volume_witness:
  "volumesCache st1 (VolumeId (req1\<lparr>VolumeId := ''v2''\<rparr>)) = None
   \<and> VolumeCapability (req1\<lparr>VolumeId := ''v2''\<rparr>) \<noteq> None
   \<and> VolumeId (req1\<lparr>VolumeId := ''v2''\<rparr>) \<noteq> []
   \<and> StagingTargetPath (req1\<lparr>VolumeId := ''v2''\<rparr>) \<noteq> []
   \<and> NodeStageVolume okEnv (req1\<lparr>VolumeId := ''v2''\<rparr>) st1 =
       (Inl (StatusError NotFound ''No volume with ID v2 found on node''), st1)
   \<and> NodeUnstageVolume okEnv (req1\<lparr>VolumeId := ''v2''\<rparr>) st1 =
       (Inl (StatusError Internal ''Unable to find volume''), st1)"
  using stage_unstage_missing_volume [of st1 "req1\<lparr>VolumeId := ''v2''\<rparr>" okEnv]
  by (simp add: st1_def req1_def)

subsection \<open>Resolving a plain drive that is not in the drive cache\<close>

text \<open>
  C7. For a volume whose storage class is not one of the two volume-group classes and
  whose \<open>Location\<close> is not in the drive cache, \<open>constructPartition\<close> returns the error
  "drive with uuid ... wasn't found", makes no call and returns no path.
\<close>

theorem constructPartition_drive_absent:
  assumes "StorageClass v \<noteq> StorageClassHDDLVG"
    and "StorageClass v \<noteq> StorageClassSSDLVG"
    and "drivesCache s (Location v) = None"
  shows "constructPartition e v s =
           (Inl (PlainError (''drive with uuid '' @ Location v @ '' wasn't found '')), s)
       \<and> (\<forall>p. fst (constructPartition e v s) \<noteq> Inr p)"
  using assms by (simp add: constructPartition_def)

theorem constructPartition_drive_absent_witness:
  "StorageClass (vol1\<lparr>Location := ''drive-uuid-2''\<rparr>) \<noteq> StorageClassHDDLVG
   \<and> StorageClass (vol1\<lparr>Location := ''drive-uuid-2''\<rparr>) \<noteq> StorageClassSSDLVG
   \<and> drivesCache st1 (Location (vol1\<lparr>Location := ''drive-uuid-2''\<rparr>)) = None
   \<and> constructPartition okEnv (vol1\<lparr>Location := ''drive-uuid-2''\<rparr>) st1 =
       (Inl (PlainError ''drive with uuid drive-uuid-2 wasn't found ''), st1)"
  using constructPartition_drive_absent [of "vol1\<lparr>Location := ''drive-uuid-2''\<rparr>" st1 okEnv]
  by (simp add: st1_def vol1_def)

subsection \<open>Requests with missing fields\<close>

text \<open>
  C9. \<open>NodeStageVolume\<close> on a request without volume capability, volume id or staging
  path, and \<open>NodePublishVolume\<close> on a request without volume capability, volume id or
  target path (or, when the volume is not ephemeral, without staging path) return a
  status error with code \<open>InvalidArgument\<close> and the state they were given: no cache
  entry is changed and no collaborator, so no mount, is called.
\<close>

theorem invalid_argument_before_any_effect:
  "(VolumeCapability req = None \<or> VolumeId req = [] \<or> StagingTargetPath req = [] \<longrightarrow>
      (\<exists>msg. NodeStageVolume e req s = (Inl (StatusError InvalidArgument msg), s)))
   \<and> (VolumeCapability req = None \<or> VolumeId req = [] \<or> TargetPath req = [] \<longrightarrow>
      (\<exists>msg. NodePublishVolume e nodeID req s = (Inl (StatusError InvalidArgument msg), s)))
   \<and> (\<not> inlineFlag req \<and> StagingTargetPath req = [] \<longrightarrow>
      (\<exists>msg. NodePublishVolume e nodeID req s = (Inl (StatusError InvalidArgument msg), s)))"
  by (simp add: NodeStageVolume_def NodePublishVolume_def publishSource_def)

theorem invalid_argument_before_any_effect_witness:
  "VolumeCapability (req1\<lparr>VolumeCapability := None\<rparr>) = None
   \<and> (\<exists>msg. NodeStageVolume okEnv (req1\<lparr>VolumeCapability := None\<rparr>) st1 =
         (Inl (StatusError InvalidArgument msg), st1))
   \<and> (\<exists>msg. NodePublishVolume okEnv ''node-1'' (req1\<lparr>VolumeCapability := None\<rparr>) st1 =
         (Inl (StatusError InvalidArgument msg), st1))
   \<and> \<not> inlineFlag (req1\<lparr>StagingTargetPath := []\<rparr>)
   \<and> StagingTargetPath (req1\<lparr>StagingTargetPath := []\<rparr>) = []
   \<and> (\<exists>msg. NodePublishVolume okEnv ''node-1'' (req1\<lparr>StagingTargetPath := []\<rparr>) st1 =
         (Inl (StatusError InvalidArgument msg), st1))"
proof -
  have a: "VolumeCapability (req1\<lparr>VolumeCapability := None\<rparr>) = None"
    by simp
  have b: "\<not> inlineFlag (req1\<lparr>StagingTargetPath := []\<rparr>)
           \<and> StagingTargetPath (req1\<lparr>StagingTargetPath := []\<rparr>) = []"
    by (simp add: inlineFlag_def req1_def PodNameKey_def EphemeralKey_def)
  show ?thesis
    using a b
      invalid_argument_before_any_effect [of "req1\<lparr>VolumeCapability := None\<rparr>" okEnv st1 "''node-1''"]
      invalid_argument_before_any_effect [of "req1\<lparr>StagingTargetPath := []\<rparr>" okEnv st1 "''node-1''"]
    by blast
qed

subsection \<open>Preparing the target and mounting\<close>

text \<open>
  C6. \<open>prepareAndPerformMount\<close>, for every source, target, implementer and bind flag:
  the first call creates the target path; if that fails its error is returned. Otherwise
  the target is probed. If the probe fails, the target path is deleted and the probe's
  error returned. If the target is a mount point already, the result is success and
  \<open>Mount\<close> is not called. Otherwise \<open>Mount\<close> is called once, with \<open>--bind\<close> or the
  empty string as its only option; if it fails, the target path is deleted and the error
  of the mount returned. The caches are never touched.
\<close>

theorem prepareAndPerformMount_steps:
  "let r = prepareAndPerformMount e src tgt i b s;
       opts = [if b then ''--bind'' else ''''];
       h1 = calls s @ [CreateTargetPath i tgt];
       h2 = h1 @ [IsMountPoint i tgt];
       h3 = h2 @ [Mount i src tgt opts]
   in volumesCache (snd r) = volumesCache s \<and> drivesCache (snd r) = drivesCache s
     \<and> (\<forall>er. sc_CreateTargetPath e (calls s) i tgt = Some er \<longrightarrow>
           fst r = Some er \<and> calls (snd r) = h1)
     \<and> (sc_CreateTargetPath e (calls s) i tgt = None \<longrightarrow>
          (\<forall>er. sc_IsMountPoint e h1 i tgt = Inl er \<longrightarrow>
             fst r = Some er \<and> calls (snd r) = h2 @ [DeleteTargetPath i tgt])
        \<and> (sc_IsMountPoint e h1 i tgt = Inr True \<longrightarrow>
             fst r = None \<and> calls (snd r) = h2)
        \<and> (sc_IsMountPoint e h1 i tgt = Inr False \<longrightarrow>
             (\<forall>er. sc_Mount e h2 i src tgt opts = Some er \<longrightarrow>
                fst r = Some er \<and> calls (snd r) = h3 @ [DeleteTargetPath i tgt])
           \<and> (sc_Mount e h2 i src tgt opts = None \<longrightarrow>
                fst r = None \<and> calls (snd r) = h3)))"
  by (simp add: prepareAndPerformMount_def call_defs Let_def split: option.splits sum.splits)

theorem prepareAndPerformMount_steps_witness:
  "prepareAndPerformMount (okEnv\<lparr>sc_IsMountPoint := (\<lambda>h i p. Inr True)\<rparr>)
      ''/dev/sda1'' ''/stage'' (SCName ''hdd'') False st1 =
     (None, st1\<lparr>calls := [CreateTargetPath (SCName ''hdd'') ''/stage'',
                            IsMountPoint (SCName ''hdd'') ''/stage'']\<rparr>)
   \<and> prepareAndPerformMount (okEnv\<lparr>sc_IsMountPoint := (\<lambda>h i p. Inl (PlainError ''stat failed''))\<rparr>)
      ''/dev/sda1'' ''/stage'' (SCName ''hdd'') False st1 =
     (Some (PlainError ''stat failed''),
      st1\<lparr>calls := [CreateTargetPath (SCName ''hdd'') ''/stage'',
                     IsMountPoint (SCName ''hdd'') ''/stage'',
                     DeleteTargetPath (SCName ''hdd'') ''/stage'']\<rparr>)
   \<and> prepareAndPerformMount (okEnv\<lparr>sc_Mount := (\<lambda>h i src dst opts. Some (PlainError ''mount failed''))\<rparr>)
      ''/stage'' ''/target'' (SCName ''hdd'') True st1 =
     (Some (PlainError ''mount failed''),
      st1\<lparr>calls := [CreateTargetPath (SCName ''hdd'') ''/target'',
                     IsMountPoint (SCName ''hdd'') ''/target'',
                     Mount (SCName ''hdd'') ''/stage'' ''/target'' [''--bind''],
                     DeleteTargetPath (SCName ''hdd'') ''/target'']\<rparr>)
   \<and> prepareAndPerformMount (okEnv\<lparr>sc_CreateTargetPath := (\<lambda>h i p. Some (PlainError ''mkdir failed''))\<rparr>)
      ''/stage'' ''/target'' (SCName ''hdd'') True st1 =
     (Some (PlainError ''mkdir failed''),
      st1\<lparr>calls := [CreateTargetPath (SCName ''hdd'') ''/target'']\<rparr>)"
  using
    prepareAndPerformMount_steps [of "okEnv\<lparr>sc_IsMountPoint := (\<lambda>h i p. Inr True)\<rparr>"
      "''/dev/sda1''" "''/stage''" "SCName ''hdd''" False st1]
    prepareAndPerformMount_steps [of "okEnv\<lparr>sc_IsMountPoint := (\<lambda>h i p. Inl (PlainError ''stat failed''))\<rparr>"
      "''/dev/sda1''" "''/stage''" "SCName ''hdd''" False st1]
    prepareAndPerformMount_steps [of "okEnv\<lparr>sc_Mount := (\<lambda>h i src dst opts. Some (PlainError ''mount failed''))\<rparr>"
      "''/stage''" "''/target''" "SCName ''hdd''" True st1]
    prepareAndPerformMount_steps [of "okEnv\<lparr>sc_CreateTargetPath := (\<lambda>h i p. Some (PlainError ''mkdir failed''))\<rparr>"
      "''/stage''" "''/target''" "SCName ''hdd''" True st1]
  by (simp add: Let_def okEnv_def st1_def prod_eq_iff state.equality)

subsection \<open>Resolving a volume in a volume group\<close>

text \<open>
  C8, as stated, fails: the path of a volume in a volume group is not
  \<open><group>/<volumeId>\<close> but \<open>/dev/<group>/<volumeId>\<close>. For the volume \<open>v1\<close> of
  class \<open>StorageClassHDDLVG\<close> in the group \<open>vg1\<close> the result is \<open>/dev/vg1/v1\<close>.
\<close>

theorem constructPartition_group_path_counterexample:
  "constructPartition okEnv (vol1\<lparr>StorageClass := StorageClassHDDLVG, Location := ''vg1''\<rparr>) st1
     = (Inr ''/dev/vg1/v1'', st1)
   \<and> fst (constructPartition okEnv (vol1\<lparr>StorageClass := StorageClassHDDLVG, Location := ''vg1''\<rparr>) st1)
     \<noteq> Inr ''vg1/v1''"
  by (simp add: constructPartition_def vol1_def)

text \<open>
  C8, amended. For a volume of class \<open>StorageClassSSDLVG\<close>, \<open>constructPartition\<close>
  makes exactly one call, \<open>GetVGNameByLVGCRName\<close> on the volume's \<open>Location\<close>, and
  returns its error or the path \<open>/dev/<name it returned>/<volume id>\<close>. For a volume of
  class \<open>StorageClassHDDLVG\<close> it makes no call and returns
  \<open>/dev/<Location>/<volume id>\<close>.
\<close>

theorem constructPartition_group_backed:
  assumes "StorageClass v = StorageClassHDDLVG \<or> StorageClass v = StorageClassSSDLVG"
  shows "constructPartition e v s =
     (if StorageClass v = StorageClassSSDLVG then
        (case k8s_GetVGNameByLVGCRName e (calls s) (Location v) of
           Inl er \<Rightarrow> Inl er
         | Inr vgName \<Rightarrow> Inr (''/dev/'' @ vgName @ ''/'' @ Id_v v),
         s\<lparr>calls := calls s @ [GetVGNameByLVGCRName (Location v)]\<rparr>)
      else (Inr (''/dev/'' @ Location v @ ''/'' @ Id_v v), s))"
  using assms
  by (auto simp add: constructPartition_def call_defs emit_def split: sum.splits)

theorem constructPartition_group_backed_witness:
  "(StorageClass (vol1\<lparr>StorageClass := StorageClassSSDLVG, Location := ''lvg-cr-1''\<rparr>) = StorageClassHDDLVG
      \<or> StorageClass (vol1\<lparr>StorageClass := StorageClassSSDLVG, Location := ''lvg-cr-1''\<rparr>) = StorageClassSSDLVG)
   \<and> constructPartition okEnv (vol1\<lparr>StorageClass := StorageClassSSDLVG, Location := ''lvg-cr-1''\<rparr>) st1
       = (Inr ''/dev/root-vg/v1'', st1\<lparr>calls := [GetVGNameByLVGCRName ''lvg-cr-1'']\<rparr>)
   \<and> (StorageClass (vol1\<lparr>StorageClass := StorageClassHDDLVG, Location := ''vg1''\<rparr>) = StorageClassHDDLVG
      \<or> StorageClass (vol1\<lparr>StorageClass := StorageClassHDDLVG, Location := ''vg1''\<rparr>) = StorageClassSSDLVG)
   \<and> constructPartition okEnv (vol1\<lparr>StorageClass := StorageClassHDDLVG, Location := ''vg1''\<rparr>) st1
       = (Inr ''/dev/vg1/v1'', st1)"
  using
    constructPartition_group_backed [of "vol1\<lparr>StorageClass := StorageClassSSDLVG, Location := ''lvg-cr-1''\<rparr>" okEnv st1]
    constructPartition_group_backed [of "vol1\<lparr>StorageClass := StorageClassHDDLVG, Location := ''vg1''\<rparr>" okEnv st1]
  by (simp add: okEnv_def st1_def vol1_def)

subsection \<open>Staging a volume that is already Ready\<close>

text \<open>
  C1, as stated, fails: staging a volume whose status is \<open>VolumeReady\<close> is not a no-op
  that always succeeds. The handler resolves the device path and calls \<open>Mount\<close> again;
  when the implementer refuses that second mount the handler returns an error.
\<close>

theorem stage_ready_remount_counterexample:
  "fst (NodeStageVolume (okEnv\<lparr>sc_Mount := (\<lambda>h i src dst opts. Some (PlainError ''already mounted''))\<rparr>)
          req1 (st1\<lparr>volumesCache := [''v1'' \<mapsto> vol1\<lparr>CSIStatus := VolumeReady\<rparr>]\<rparr>))
     = Inl (PlainError ''failed to stage volume v1'')
   \<and> calls (snd (NodeStageVolume (okEnv\<lparr>sc_Mount := (\<lambda>h i src dst opts. Some (PlainError ''already mounted''))\<rparr>)
          req1 (st1\<lparr>volumesCache := [''v1'' \<mapsto> vol1\<lparr>CSIStatus := VolumeReady\<rparr>]\<rparr>)))
     = [SearchDrivePath drive1, GetPartitionNameByUUID ''/dev/sda'' ''v1'',
        Mount (SCName ''hdd'') ''/dev/sda1'' ''/stage'' []]"
  by (simp add: NodeStageVolume_def getFromVolumeCache_def constructPartition_def call_defs
      Let_def example_defs)

text \<open>
  C1, amended. For a request that passes the argument checks on a volume whose cached
  status is \<open>VolumeReady\<close>: both caches are left as they were, so the status stays
  \<open>VolumeReady\<close>, whatever the outcome. The handler resolves the device path; if that
  fails it returns an internal error. Otherwise it makes exactly one more call, \<open>Mount\<close>
  of the resolved path on the staging path with no option (the target path is neither
  created nor probed), and returns success if and only if that call succeeds.
\<close>

theorem stage_ready_volume:
  assumes "VolumeCapability req \<noteq> None"
    and "VolumeId req \<noteq> []"
    and "StagingTargetPath req \<noteq> []"
    and "volumesCache s (VolumeId req) = Some v"
    and "CSIStatus v = VolumeReady"
  shows "let r = NodeStageVolume e req s;
             scImpl = getStorageClassImpl e (StorageClass v)
         in volumesCache (snd r) = volumesCache s \<and> drivesCache (snd r) = drivesCache s
          \<and> (case constructPartition e v s of
                (Inl er, s1) \<Rightarrow> r = (Inl (StatusError Internal ''failed to publish volume''), s1)
              | (Inr part, s1) \<Rightarrow>
                  snd r = emit (Mount scImpl part (StagingTargetPath req) []) s1
                  \<and> fst r =
                      (case sc_Mount e (calls s1) scImpl part (StagingTargetPath req) [] of
                         None \<Rightarrow> Inr ()
                       | Some er \<Rightarrow> Inl (PlainError (''failed to stage volume '' @ Id_v v))))"
proof (cases "constructPartition e v s")
  case (Pair p s1)
  then have c: "volumesCache s1 = volumesCache s \<and> drivesCache s1 = drivesCache s"
    by (rule constructPartition_cachesD)
  show ?thesis
    using assms Pair c
    by (simp add: NodeStageVolume_def getFromVolumeCache_def scMount_def Let_def
        split: sum.splits option.splits)
qed

theorem stage_ready_volume_witness:
  "VolumeCapability req1 \<noteq> None \<and> VolumeId req1 \<noteq> [] \<and> StagingTargetPath req1 \<noteq> []
   \<and> volumesCache (st1\<lparr>volumesCache := [''v1'' \<mapsto> vol1\<lparr>CSIStatus := VolumeReady\<rparr>]\<rparr>) (VolumeId req1)
       = Some (vol1\<lparr>CSIStatus := VolumeReady\<rparr>)
   \<and> CSIStatus (vol1\<lparr>CSIStatus := VolumeReady\<rparr>) = VolumeReady
   \<and> NodeStageVolume okEnv req1 (st1\<lparr>volumesCache := [''v1'' \<mapsto> vol1\<lparr>CSIStatus := VolumeReady\<rparr>]\<rparr>)
       = (Inr (), st1\<lparr>volumesCache := [''v1'' \<mapsto> vol1\<lparr>CSIStatus := VolumeReady\<rparr>],
                       calls := [SearchDrivePath drive1, GetPartitionNameByUUID ''/dev/sda'' ''v1'',
                                 Mount (SCName ''hdd'') ''/dev/sda1'' ''/stage'' []]\<rparr>)"
proof -
  let ?s = "st1\<lparr>volumesCache := [''v1'' \<mapsto> vol1\<lparr>CSIStatus := VolumeReady\<rparr>]\<rparr>"
  have h: "VolumeCapability req1 \<noteq> None" "VolumeId req1 \<noteq> []" "StagingTargetPath req1 \<noteq> []"
    "volumesCache ?s (VolumeId req1) = Some (vol1\<lparr>CSIStatus := VolumeReady\<rparr>)"
    "CSIStatus (vol1\<lparr>CSIStatus := VolumeReady\<rparr>) = VolumeReady"
    by (simp_all add: req1_def st1_def)
  have cp: "constructPartition okEnv (vol1\<lparr>CSIStatus := VolumeReady\<rparr>) ?s =
      (Inr ''/dev/sda1'', ?s\<lparr>calls := [SearchDrivePath drive1, GetPartitionNameByUUID ''/dev/sda'' ''v1'']\<rparr>)"
    by (simp add: constructPartition_def call_defs emit_def Let_def example_defs)
  show ?thesis
    using h stage_ready_volume [OF h, of okEnv]
    by (simp add: cp Let_def prod_eq_iff emit_def) (simp add: example_defs)
qed

subsection \<open>Which failures mark the volume Failed\<close>

text \<open>
  C2, as stated, fails: in \<open>NodeStageVolume\<close> a failure to resolve the device path,
  after the volume was found in the cache, returns an internal error and leaves the
  cached status as it was. Here the drive of \<open>v1\<close> is not in the drive cache, and the
  status of \<open>v1\<close> is still \<open>Created\<close> afterwards.
\<close>

theorem stage_resolution_failure_counterexample:
  "NodeStageVolume okEnv req1 (st1\<lparr>drivesCache := Map.empty\<rparr>)
     = (Inl (StatusError Internal ''failed to publish volume''), st1\<lparr>drivesCache := Map.empty\<rparr>)
   \<and> map_option CSIStatus
        (volumesCache (snd (NodeStageVolume okEnv req1 (st1\<lparr>drivesCache := Map.empty\<rparr>))) ''v1'')
       = Some Created
   \<and> map_option CSIStatus
        (volumesCache (snd (NodeStageVolume okEnv req1 (st1\<lparr>drivesCache := Map.empty\<rparr>))) ''v1'')
       \<noteq> Some Failed"
  by (simp add: NodeStageVolume_def getFromVolumeCache_def constructPartition_def Let_def
      example_defs)

text \<open>Owner bookkeeping keeps the entry of the volume in the cache.\<close>

lemma setVolumeStatus_status:
  "volumesCache s i = Some v \<Longrightarrow>
     map_option CSIStatus (volumesCache (setVolumeStatus i st s) i) = Some st"
  by (simp add: setVolumeStatus_def)

lemma clearVolumeOwners_calls [simp]:
  "calls (snd (clearVolumeOwners e i s)) = calls s @ [ClearVolumeOwners i]"
  "drivesCache (snd (clearVolumeOwners e i s)) = drivesCache s"
  by (simp_all add: clearVolumeOwners_def Let_def split: option.splits)

lemma clearVolumeOwners_cache:
  "volumesCache (snd (clearVolumeOwners e i s)) =
     (case volumesCache s i of
        None \<Rightarrow> volumesCache s
      | Some v \<Rightarrow>
          (case vm_clearVolumeOwners e (calls s) i of
             Some er \<Rightarrow> volumesCache s
           | None \<Rightarrow> (volumesCache s)(i \<mapsto> v\<lparr>Owners := []\<rparr>)))"
  by (simp add: clearVolumeOwners_def Let_def split: option.splits)

lemma addVolumeOwner_calls [simp]:
  "calls (snd (addVolumeOwner e i p s)) = calls s @ [AddVolumeOwner i p]"
  "drivesCache (snd (addVolumeOwner e i p s)) = drivesCache s"
  by (simp_all add: addVolumeOwner_def Let_def split: option.splits)

lemma addVolumeOwner_cache:
  "volumesCache (snd (addVolumeOwner e i p s)) =
     (case volumesCache s i of
        None \<Rightarrow> volumesCache s
      | Some v \<Rightarrow>
          (case vm_addVolumeOwner e (calls s) i p of
             Some er \<Rightarrow> volumesCache s
           | None \<Rightarrow> (volumesCache s)(i \<mapsto>
               v\<lparr>Owners := (if p \<in> set (Owners v) then Owners v else Owners v @ [p])\<rparr>)))"
  by (simp add: addVolumeOwner_def Let_def split: option.splits)

lemma clearVolumeOwners_present:
  "volumesCache s i = Some v \<Longrightarrow>
     \<exists>v'. volumesCache (snd (clearVolumeOwners e i s)) i = Some v'"
  by (simp add: clearVolumeOwners_cache split: option.splits)

lemma addVolumeOwner_present:
  "volumesCache s i = Some v \<Longrightarrow>
     \<exists>v'. volumesCache (snd (addVolumeOwner e i p s)) i = Some v'"
  by (simp add: addVolumeOwner_cache split: option.splits)

lemma stage_mount_failure:
  assumes "VolumeCapability req \<noteq> None" "VolumeId req \<noteq> []" "StagingTargetPath req \<noteq> []"
    and "volumesCache s (VolumeId req) = Some v"
    and "CSIStatus v \<noteq> Failed" "CSIStatus v \<noteq> VolumeReady"
    and cp: "constructPartition e v s = (Inr part, s1)"
    and pm: "prepareAndPerformMount e part (StagingTargetPath req)
              (getStorageClassImpl e (StorageClass v)) False s1 = (Some er, s2)"
  shows "fst (NodeStageVolume e req s) = Inl (PlainError ''failed to stage volume'')
       \<and> map_option CSIStatus (volumesCache (snd (NodeStageVolume e req s)) (VolumeId req)) = Some Failed"
proof -
  have "volumesCache s2 = volumesCache s"
    using constructPartition_cachesD [OF cp] prepareAndPerformMount_cachesD [OF pm] by simp
  then have "map_option CSIStatus (volumesCache (setVolumeStatus (VolumeId req) Failed s2) (VolumeId req))
      = Some Failed"
    using assms(4) by (simp add: setVolumeStatus_status)
  then show ?thesis
    using assms by (simp add: NodeStageVolume_def getFromVolumeCache_def Let_def)
qed

lemma stage_resolve_error:
  assumes "VolumeCapability req \<noteq> None" "VolumeId req \<noteq> []" "StagingTargetPath req \<noteq> []"
    and "volumesCache s (VolumeId req) = Some v"
    and "CSIStatus v \<noteq> Failed"
    and cp: "constructPartition e v s = (Inl er, s1)"
  shows "NodeStageVolume e req s = (Inl (StatusError Internal ''failed to publish volume''), s1)
       \<and> volumesCache s1 = volumesCache s"
  using assms constructPartition_cachesD [OF cp]
  by (simp add: NodeStageVolume_def getFromVolumeCache_def Let_def)

lemma unstage_unmount_failure:
  assumes "VolumeId req \<noteq> []" "StagingTargetPath req \<noteq> []"
    and v: "volumesCache s (VolumeId req) = Some v"
    and "Id_v v = VolumeId req" "CSIStatus v \<noteq> Failed"
    and um: "sc_Unmount e (calls s @ [ClearVolumeOwners (VolumeId req)])
              (getStorageClassImpl e (StorageClass v)) (StagingTargetPath req) = Some er"
  shows "fst (NodeUnstageVolume e req s) = Inl (StatusError Internal ''Unable to unmount'')
       \<and> map_option CSIStatus (volumesCache (snd (NodeUnstageVolume e req s)) (VolumeId req)) = Some Failed"
proof -
  obtain v' where "volumesCache (snd (clearVolumeOwners e (VolumeId req) s)) (VolumeId req) = Some v'"
    using clearVolumeOwners_present [OF v] by blast
  then show ?thesis
    using assms
    by (simp add: NodeUnstageVolume_def getFromVolumeCache_def Let_def unmount_eq
        setVolumeStatus_status)
qed

lemma unstage_owner_clear_failure:
  assumes "VolumeId req \<noteq> []" "StagingTargetPath req \<noteq> []"
    and v: "volumesCache s (VolumeId req) = Some v"
    and "CSIStatus v \<noteq> Failed"
    and "vm_clearVolumeOwners e (calls s) (VolumeId req) = Some er"
    and um: "sc_Unmount e (calls s @ [ClearVolumeOwners (VolumeId req)])
              (getStorageClassImpl e (StorageClass v)) (StagingTargetPath req) = None"
  shows "NodeUnstageVolume e req s =
           (Inr (), s\<lparr>calls := calls s @ [ClearVolumeOwners (VolumeId req),
              Unmount (getStorageClassImpl e (StorageClass v)) (StagingTargetPath req)]\<rparr>)"
  using assms
  by (simp add: NodeUnstageVolume_def getFromVolumeCache_def Let_def unmount_eq
      clearVolumeOwners_def emit_def)

lemma publish_mount_failure:
  assumes "VolumeCapability req \<noteq> None" "VolumeId req \<noteq> []" "TargetPath req \<noteq> []"
    and v: "volumesCache s (VolumeId req) = Some v"
    and "Id_v v = VolumeId req" "CSIStatus v \<noteq> Failed"
    and ps: "publishSource e n req s = Inr (src, b, s2)"
    and pm: "prepareAndPerformMount e src (TargetPath req) (getStorageClassImpl e (StorageClass v)) b
              (case VolumeContext req PodNameKey of
                 None \<Rightarrow> s2
               | Some podName \<Rightarrow> snd (addVolumeOwner e (VolumeId req) podName s2)) = (Some er, s4)"
  shows "fst (NodePublishVolume e n req s) = Inl (PlainError ''failed to publish volume'')
       \<and> map_option CSIStatus (volumesCache (snd (NodePublishVolume e n req s)) (VolumeId req)) = Some Failed"
proof -
  have c2: "volumesCache s2 (VolumeId req) = Some v"
    using publishSource_caches(1) [OF ps] v by simp
  have "\<exists>v'. volumesCache (case VolumeContext req PodNameKey of
                 None \<Rightarrow> s2
               | Some podName \<Rightarrow> snd (addVolumeOwner e (VolumeId req) podName s2)) (VolumeId req) = Some v'"
    using c2 addVolumeOwner_present [OF c2] by (simp split: option.splits)
  then obtain v' where "volumesCache s4 (VolumeId req) = Some v'"
    using prepareAndPerformMount_cachesD [OF pm] by auto
  then have "map_option CSIStatus (volumesCache (setVolumeStatus (VolumeId req) Failed s4) (VolumeId req))
      = Some Failed"
    by (simp add: setVolumeStatus_status)
  then show ?thesis
    using assms c2 by (simp add: NodePublishVolume_def getFromVolumeCache_def Let_def)
qed

lemma unpublish_unmount_failure:
  assumes "VolumeId req \<noteq> []" "TargetPath req \<noteq> []"
    and v: "volumesCache s (VolumeId req) = Some v"
    and "Id_v v = VolumeId req"
    and um: "sc_Unmount e (calls s) (getStorageClassImpl e (StorageClass v)) (TargetPath req) = Some er"
  shows "fst (NodeUnpublishVolume e req s) = Inl (StatusError Internal ''Unable to unmount'')
       \<and> map_option CSIStatus (volumesCache (snd (NodeUnpublishVolume e req s)) (VolumeId req)) = Some Failed"
  using assms
  by (simp add: NodeUnpublishVolume_def getFromVolumeCache_def Let_def unmount_eq
      setVolumeStatus_status)

text \<open>
  C2, amended. Once the volume is found in the cache (under its own id): a failure of
  \<open>prepareAndPerformMount\<close> in \<open>NodeStageVolume\<close> (volume not yet Ready) or in
  \<open>NodePublishVolume\<close>, and a failure of the unmount in \<open>NodeUnstageVolume\<close> or in
  \<open>NodeUnpublishVolume\<close>, set the cached status of the volume to \<open>Failed\<close> and return
  an error. A failure to resolve the device path in \<open>NodeStageVolume\<close> returns an
  internal error and leaves the volume cache as it was. A failure of the owner-clear
  step of \<open>NodeUnstageVolume\<close> is not returned and changes no cache.
\<close>

theorem failure_marks_volume_failed:
  assumes "VolumeId req \<noteq> []"
    and "volumesCache s (VolumeId req) = Some v"
    and "Id_v v = VolumeId req"
  shows
   "(VolumeCapability req \<noteq> None \<and> StagingTargetPath req \<noteq> []
       \<and> CSIStatus v \<noteq> Failed \<and> CSIStatus v \<noteq> VolumeReady \<longrightarrow>
      (\<forall>part s1 er s2.
         constructPartition e v s = (Inr part, s1)
         \<and> prepareAndPerformMount e part (StagingTargetPath req)
              (getStorageClassImpl e (StorageClass v)) False s1 = (Some er, s2) \<longrightarrow>
         fst (NodeStageVolume e req s) = Inl (PlainError ''failed to stage volume'')
         \<and> map_option CSIStatus (volumesCache (snd (NodeStageVolume e req s)) (VolumeId req))
             = Some Failed))
    \<and> (VolumeCapability req \<noteq> None \<and> StagingTargetPath req \<noteq> [] \<and> CSIStatus v \<noteq> Failed \<longrightarrow>
      (\<forall>er s1.
         constructPartition e v s = (Inl er, s1) \<longrightarrow>
         NodeStageVolume e req s = (Inl (StatusError Internal ''failed to publish volume''), s1)
         \<and> volumesCache s1 = volumesCache s))
    \<and> (StagingTargetPath req \<noteq> [] \<and> CSIStatus v \<noteq> Failed \<longrightarrow>
      (\<forall>er.
         sc_Unmount e (calls s @ [ClearVolumeOwners (VolumeId req)])
           (getStorageClassImpl e (StorageClass v)) (StagingTargetPath req) = Some er \<longrightarrow>
         fst (NodeUnstageVolume e req s) = Inl (StatusError Internal ''Unable to unmount'')
         \<and> map_option CSIStatus (volumesCache (snd (NodeUnstageVolume e req s)) (VolumeId req))
             = Some Failed))
    \<and> (StagingTargetPath req \<noteq> [] \<and> CSIStatus v \<noteq> Failed \<longrightarrow>
      (\<forall>er.
         vm_clearVolumeOwners e (calls s) (VolumeId req) = Some er
         \<and> sc_Unmount e (calls s @ [ClearVolumeOwners (VolumeId req)])
             (getStorageClassImpl e (StorageClass v)) (StagingTargetPath req) = None \<longrightarrow>
         NodeUnstageVolume e req s =
           (Inr (), s\<lparr>calls := calls s @ [ClearVolumeOwners (VolumeId req),
              Unmount (getStorageClassImpl e (StorageClass v)) (StagingTargetPath req)]\<rparr>)))
    \<and> (VolumeCapability req \<noteq> None \<and> TargetPath req \<noteq> [] \<and> CSIStatus v \<noteq> Failed \<longrightarrow>
      (\<forall>src b s2 er s4.
         publishSource e n req s = Inr (src, b, s2)
         \<and> prepareAndPerformMount e src (TargetPath req)
              (getStorageClassImpl e (StorageClass v)) b
              (case VolumeContext req PodNameKey of
                 None \<Rightarrow> s2
               | Some podName \<Rightarrow> snd (addVolumeOwner e (VolumeId req) podName s2))
             = (Some er, s4) \<longrightarrow>
         fst (NodePublishVolume e n req s) = Inl (PlainError ''failed to publish volume'')
         \<and> map_option CSIStatus (volumesCache (snd (NodePublishVolume e n req s)) (VolumeId req))
             = Some Failed))
    \<and> (TargetPath req \<noteq> [] \<longrightarrow>
      (\<forall>er.
         sc_Unmount e (calls s) (getStorageClassImpl e (StorageClass v)) (TargetPath req)
           = Some er \<longrightarrow>
         fst (NodeUnpublishVolume e req s) = Inl (StatusError Internal ''Unable to unmount'')
         \<and> map_option CSIStatus (volumesCache (snd (NodeUnpublishVolume e req s)) (VolumeId req))
             = Some Failed))"
    (is "?stage \<and> ?resolve \<and> ?unstage \<and> ?clear \<and> ?publish \<and> ?unpublish")
proof -
  have 1: ?stage
    using assms by (intro impI allI) (elim conjE, rule stage_mount_failure; assumption)
  have 2: ?resolve
    using assms by (intro impI allI) (elim conjE, rule stage_resolve_error; assumption)
  have 3: ?unstage
    using assms by (intro impI allI) (elim conjE, rule unstage_unmount_failure; assumption)
  have 4: ?clear
    using assms by (intro impI allI) (elim conjE, rule unstage_owner_clear_failure; assumption)
  have 5: ?publish
    using assms by (intro impI allI) (elim conjE, rule publish_mount_failure; assumption)
  have 6: ?unpublish
    using assms by (intro impI allI) (rule unpublish_unmount_failure; assumption)
  show ?thesis
    by (rule conjI 1 2 3 4 5 6)+
qed

theorem failure_marks_volume_failed_witness:
  "VolumeId req1 \<noteq> [] \<and> volumesCache st1 (VolumeId req1) = Some vol1 \<and> Id_v vol1 = VolumeId req1
   \<and> fst (NodeStageVolume (okEnv\<lparr>sc_Mount := (\<lambda>h i src dst opts. Some (PlainError ''mount failed''))\<rparr>) req1 st1)
       = Inl (PlainError ''failed to stage volume'')
   \<and> map_option CSIStatus (volumesCache (snd (NodeStageVolume
        (okEnv\<lparr>sc_Mount := (\<lambda>h i src dst opts. Some (PlainError ''mount failed''))\<rparr>) req1 st1)) (VolumeId req1))
       = Some Failed
   \<and> fst (NodeUnstageVolume (okEnv\<lparr>sc_Unmount := (\<lambda>h i p. Some (PlainError ''busy''))\<rparr>) req1 st1)
       = Inl (StatusError Internal ''Unable to unmount'')
   \<and> map_option CSIStatus (volumesCache (snd (NodeUnstageVolume
        (okEnv\<lparr>sc_Unmount := (\<lambda>h i p. Some (PlainError ''busy''))\<rparr>) req1 st1)) (VolumeId req1))
       = Some Failed
   \<and> NodeUnstageVolume (okEnv\<lparr>vm_clearVolumeOwners := (\<lambda>h i. Some (PlainError ''conflict''))\<rparr>) req1 st1
       = (Inr (), st1\<lparr>calls := calls st1 @ [ClearVolumeOwners (VolumeId req1),
            Unmount (getStorageClassImpl okEnv (StorageClass vol1)) (StagingTargetPath req1)]\<rparr>)
   \<and> fst (NodePublishVolume (okEnv\<lparr>sc_Mount := (\<lambda>h i src dst opts. Some (PlainError ''mount failed''))\<rparr>)
         ''node-1'' req1 st1)
       = Inl (PlainError ''failed to publish volume'')
   \<and> map_option CSIStatus (volumesCache (snd (NodePublishVolume
        (okEnv\<lparr>sc_Mount := (\<lambda>h i src dst opts. Some (PlainError ''mount failed''))\<rparr>) ''node-1'' req1 st1))
        (VolumeId req1))
       = Some Failed
   \<and> fst (NodeUnpublishVolume (okEnv\<lparr>sc_Unmount := (\<lambda>h i p. Some (PlainError ''busy''))\<rparr>) req1 st1)
       = Inl (StatusError Internal ''Unable to unmount'')
   \<and> map_option CSIStatus (volumesCache (snd (NodeUnpublishVolume
        (okEnv\<lparr>sc_Unmount := (\<lambda>h i p. Some (PlainError ''busy''))\<rparr>) req1 st1)) (VolumeId req1))
       = Some Failed"
proof -
  have h: "VolumeId req1 \<noteq> []" "volumesCache st1 (VolumeId req1) = Some vol1"
    "Id_v vol1 = VolumeId req1"
    by (simp_all add: example_defs)
  have r: "VolumeCapability req1 \<noteq> None" "StagingTargetPath req1 \<noteq> []" "TargetPath req1 \<noteq> []"
    "CSIStatus vol1 \<noteq> Failed" "CSIStatus vol1 \<noteq> VolumeReady"
    by (simp_all add: example_defs)
  let ?m = "okEnv\<lparr>sc_Mount := (\<lambda>h i src dst opts. Some (PlainError ''mount failed''))\<rparr>"
  let ?u = "okEnv\<lparr>sc_Unmount := (\<lambda>h i p. Some (PlainError ''busy''))\<rparr>"
  let ?c = "okEnv\<lparr>vm_clearVolumeOwners := (\<lambda>h i. Some (PlainError ''conflict''))\<rparr>"
  have cp: "constructPartition ?m vol1 st1 =
      (Inr ''/dev/sda1'', st1\<lparr>calls := [SearchDrivePath drive1, GetPartitionNameByUUID ''/dev/sda'' ''v1'']\<rparr>)"
    by (simp add: constructPartition_def call_defs emit_def Let_def example_defs)
  have pm: "prepareAndPerformMount ?m ''/dev/sda1'' (StagingTargetPath req1)
      (getStorageClassImpl ?m (StorageClass vol1)) False
      (st1\<lparr>calls := [SearchDrivePath drive1, GetPartitionNameByUUID ''/dev/sda'' ''v1'']\<rparr>) =
      (Some (PlainError ''mount failed''),
       st1\<lparr>calls := [SearchDrivePath drive1, GetPartitionNameByUUID ''/dev/sda'' ''v1'',
         CreateTargetPath (SCName ''hdd'') ''/stage'', IsMountPoint (SCName ''hdd'') ''/stage'',
         Mount (SCName ''hdd'') ''/dev/sda1'' ''/stage'' [''''],
         DeleteTargetPath (SCName ''hdd'') ''/stage'']\<rparr>)"
    by (simp add: prepareAndPerformMount_def call_defs emit_def Let_def example_defs)
  have ps: "publishSource ?m ''node-1'' req1 st1 = Inr (''/stage'', True, st1)"
    by (simp add: publishSource_def inlineFlag_def PodNameKey_def EphemeralKey_def Let_def
        example_defs)
  have pm2: "prepareAndPerformMount ?m ''/stage'' (TargetPath req1)
      (getStorageClassImpl ?m (StorageClass vol1)) True
      (case VolumeContext req1 PodNameKey of
         None \<Rightarrow> st1
       | Some podName \<Rightarrow> snd (addVolumeOwner ?m (VolumeId req1) podName st1)) =
      (Some (PlainError ''mount failed''),
       snd (prepareAndPerformMount ?m ''/stage'' (TargetPath req1)
      (getStorageClassImpl ?m (StorageClass vol1)) True
      (case VolumeContext req1 PodNameKey of
         None \<Rightarrow> st1
       | Some podName \<Rightarrow> snd (addVolumeOwner ?m (VolumeId req1) podName st1))))"
    by (simp add: prepareAndPerformMount_def call_defs Let_def okEnv_def prod_eq_iff)
  have um1: "sc_Unmount ?u (calls st1 @ [ClearVolumeOwners (VolumeId req1)])
      (getStorageClassImpl ?u (StorageClass vol1)) (StagingTargetPath req1) = Some (PlainError ''busy'')"
    "sc_Unmount ?u (calls st1) (getStorageClassImpl ?u (StorageClass vol1)) (TargetPath req1)
       = Some (PlainError ''busy'')"
    by (simp_all add: okEnv_def)
  have cl: "vm_clearVolumeOwners ?c (calls st1) (VolumeId req1) = Some (PlainError ''conflict'')"
    "sc_Unmount ?c (calls st1 @ [ClearVolumeOwners (VolumeId req1)])
      (getStorageClassImpl ?c (StorageClass vol1)) (StagingTargetPath req1) = None"
    by (simp_all add: okEnv_def)
  note t = failure_marks_volume_failed [OF h]
  have a: "fst (NodeStageVolume ?m req1 st1) = Inl (PlainError ''failed to stage volume'')
     \<and> map_option CSIStatus (volumesCache (snd (NodeStageVolume ?m req1 st1)) (VolumeId req1)) = Some Failed"
    using t [of ?m "''node-1''"] r cp pm by blast
  have b: "fst (NodeUnstageVolume ?u req1 st1) = Inl (StatusError Internal ''Unable to unmount'')
     \<and> map_option CSIStatus (volumesCache (snd (NodeUnstageVolume ?u req1 st1)) (VolumeId req1)) = Some Failed"
    using t [of ?u "''node-1''"] r um1 by blast
  have c: "NodeUnstageVolume ?c req1 st1
       = (Inr (), st1\<lparr>calls := calls st1 @ [ClearVolumeOwners (VolumeId req1),
            Unmount (getStorageClassImpl ?c (StorageClass vol1)) (StagingTargetPath req1)]\<rparr>)"
    using t [of ?c "''node-1''"] r cl by blast
  have d: "fst (NodePublishVolume ?m ''node-1'' req1 st1) = Inl (PlainError ''failed to publish volume'')
     \<and> map_option CSIStatus (volumesCache (snd (NodePublishVolume ?m ''node-1'' req1 st1)) (VolumeId req1)) = Some Failed"
    using t [of ?m "''node-1''"] r ps pm2 by blast
  have e: "fst (NodeUnpublishVolume ?u req1 st1) = Inl (StatusError Internal ''Unable to unmount'')
     \<and> map_option CSIStatus (volumesCache (snd (NodeUnpublishVolume ?u req1 st1)) (VolumeId req1)) = Some Failed"
    using t [of ?u "''node-1''"] r um1 by blast
  have g: "getStorageClassImpl ?c = getStorageClassImpl okEnv"
    by simp
  show ?thesis
    using h a b c d e unfolding g by simp
qed

subsection \<open>Unpublishing and the owners of a volume\<close>

text \<open>
  C3, as stated, fails: \<open>NodeUnpublishVolume\<close> removes no owner. With the owners
  \<open>podA\<close> and \<open>podB\<close>, both are still recorded after a first call, and after a second
  call the status is still \<open>Published\<close>, not \<open>VolumeReady\<close>.
\<close>

theorem unpublish_keeps_owners_counterexample:
  "map_option Owners (volumesCache (snd (NodeUnpublishVolume okEnv req1
       (st1\<lparr>volumesCache := [''v1'' \<mapsto> vol1\<lparr>CSIStatus := Published, Owners := [''podA'', ''podB'']\<rparr>]\<rparr>)))
       ''v1'')
     = Some [''podA'', ''podB'']
   \<and> map_option CSIStatus (volumesCache (snd (NodeUnpublishVolume okEnv req1 (snd (NodeUnpublishVolume okEnv req1
       (st1\<lparr>volumesCache := [''v1'' \<mapsto> vol1\<lparr>CSIStatus := Published, Owners := [''podA'', ''podB'']\<rparr>]\<rparr>)))))
       ''v1'')
     = Some Published"
  by (simp add: NodeUnpublishVolume_def getFromVolumeCache_def unmount_eq Let_def example_defs)

lemma unpublish_many_owners:
  assumes "VolumeId req \<noteq> []" "TargetPath req \<noteq> []"
    and "volumesCache s (VolumeId req) = Some v"
    and "sc_Unmount e (calls s) (getStorageClassImpl e (StorageClass v)) (TargetPath req) = None"
    and "length (Owners v) > 1"
  shows "NodeUnpublishVolume e req s =
           (Inr (), emit (Unmount (getStorageClassImpl e (StorageClass v)) (TargetPath req)) s)"
  using assms
  by (simp add: NodeUnpublishVolume_def getFromVolumeCache_def unmount_eq)

lemma unpublish_last_owner_cache:
  assumes "VolumeId req \<noteq> []" "TargetPath req \<noteq> []"
    and "volumesCache s (VolumeId req) = Some v"
    and "Id_v v = VolumeId req"
    and "sc_Unmount e (calls s) (getStorageClassImpl e (StorageClass v)) (TargetPath req) = None"
    and "length (Owners v) \<le> 1"
  shows "volumesCache (snd (NodeUnpublishVolume e req s)) =
           (volumesCache s)(VolumeId req \<mapsto> v\<lparr>CSIStatus := VolumeReady\<rparr>)"
  using assms
  by (simp add: NodeUnpublishVolume_def getFromVolumeCache_def unmount_eq Let_def
      setVolumeStatus_cache call_defs split: option.splits)

text \<open>
  C3, amended. For a request that passes the argument checks, on a volume in the cache
  (under its own id), whose unmount succeeds: with two or more owners the handler
  returns success and changes nothing in the volume cache, so no owner is removed and
  the status stays as it was; a second such call does the same. With at most one owner
  the only change to the volume cache is that the status of the volume becomes
  \<open>VolumeReady\<close>; its owners are not changed then either.
\<close>

theorem unpublish_owners:
  assumes "VolumeId req \<noteq> []"
    and "TargetPath req \<noteq> []"
    and "volumesCache s (VolumeId req) = Some v"
    and "Id_v v = VolumeId req"
    and "sc_Unmount e (calls s) (getStorageClassImpl e (StorageClass v)) (TargetPath req) = None"
  shows
    "(length (Owners v) > 1 \<longrightarrow>
        NodeUnpublishVolume e req s =
          (Inr (), emit (Unmount (getStorageClassImpl e (StorageClass v)) (TargetPath req)) s)
        \<and> volumesCache (snd (NodeUnpublishVolume e req s)) = volumesCache s)
     \<and> (length (Owners v) > 1
        \<and> sc_Unmount e (calls s @ [Unmount (getStorageClassImpl e (StorageClass v)) (TargetPath req)])
            (getStorageClassImpl e (StorageClass v)) (TargetPath req) = None \<longrightarrow>
        fst (NodeUnpublishVolume e req (snd (NodeUnpublishVolume e req s))) = Inr ()
        \<and> volumesCache (snd (NodeUnpublishVolume e req (snd (NodeUnpublishVolume e req s))))
            = volumesCache s)
     \<and> (length (Owners v) \<le> 1 \<longrightarrow>
        volumesCache (snd (NodeUnpublishVolume e req s)) =
          (volumesCache s)(VolumeId req \<mapsto> v\<lparr>CSIStatus := VolumeReady\<rparr>))"
    (is "?once \<and> ?twice \<and> ?last")
proof -
  let ?u = "Unmount (getStorageClassImpl e (StorageClass v)) (TargetPath req)"
  have 1: ?once
    using unpublish_many_owners [OF assms(1,2,3,5)] by simp
  have 2: ?twice
  proof (intro impI, elim conjE)
    assume many: "length (Owners v) > 1"
      and um: "sc_Unmount e (calls s @ [?u]) (getStorageClassImpl e (StorageClass v)) (TargetPath req) = None"
    have first: "NodeUnpublishVolume e req s = (Inr (), emit ?u s)"
      using unpublish_many_owners [OF assms(1,2,3,5) many] .
    have "NodeUnpublishVolume e req (emit ?u s) = (Inr (), emit ?u (emit ?u s))"
      using unpublish_many_owners [of req "emit ?u s" v e] assms many um by simp
    then show "fst (NodeUnpublishVolume e req (snd (NodeUnpublishVolume e req s))) = Inr ()
        \<and> volumesCache (snd (NodeUnpublishVolume e req (snd (NodeUnpublishVolume e req s))))
            = volumesCache s"
      by (simp add: first)
  qed
  have 3: ?last
    using unpublish_last_owner_cache [OF assms(1,2,3,4,5)] by simp
  show ?thesis
    by (rule conjI 1 2 3)+
qed

theorem unpublish_owners_witness:
  "VolumeId req1 \<noteq> [] \<and> TargetPath req1 \<noteq> []
   \<and> NodeUnpublishVolume okEnv req1
       (st1\<lparr>volumesCache := [''v1'' \<mapsto> vol1\<lparr>CSIStatus := Published, Owners := [''podA'', ''podB'']\<rparr>]\<rparr>)
      = (Inr (), st1\<lparr>volumesCache := [''v1'' \<mapsto> vol1\<lparr>CSIStatus := Published, Owners := [''podA'', ''podB'']\<rparr>],
                      calls := [Unmount (SCName ''hdd'') ''/target'']\<rparr>)
   \<and> volumesCache (snd (NodeUnpublishVolume okEnv req1 (snd (NodeUnpublishVolume okEnv req1
       (st1\<lparr>volumesCache := [''v1'' \<mapsto> vol1\<lparr>CSIStatus := Published, Owners := [''podA'', ''podB'']\<rparr>]\<rparr>)))))
      = [''v1'' \<mapsto> vol1\<lparr>CSIStatus := Published, Owners := [''podA'', ''podB'']\<rparr>]
   \<and> volumesCache (snd (NodeUnpublishVolume okEnv req1
       (st1\<lparr>volumesCache := [''v1'' \<mapsto> vol1\<lparr>CSIStatus := Published, Owners := [''podA'']\<rparr>]\<rparr>)))
      = [''v1'' \<mapsto> vol1\<lparr>CSIStatus := VolumeReady, Owners := [''podA'']\<rparr>]"
proof -
  let ?v2 = "vol1\<lparr>CSIStatus := Published, Owners := [''podA'', ''podB'']\<rparr>"
  let ?v1 = "vol1\<lparr>CSIStatus := Published, Owners := [''podA'']\<rparr>"
  let ?s2 = "st1\<lparr>volumesCache := [''v1'' \<mapsto> ?v2]\<rparr>"
  let ?s1 = "st1\<lparr>volumesCache := [''v1'' \<mapsto> ?v1]\<rparr>"
  have r: "VolumeId req1 \<noteq> []" "TargetPath req1 \<noteq> []"
    by (simp_all add: req1_def)
  have h2: "volumesCache ?s2 (VolumeId req1) = Some ?v2" "Id_v ?v2 = VolumeId req1"
    "sc_Unmount okEnv (calls ?s2) (getStorageClassImpl okEnv (StorageClass ?v2)) (TargetPath req1) = None"
    by (simp_all add: example_defs)
  have h1: "volumesCache ?s1 (VolumeId req1) = Some ?v1" "Id_v ?v1 = VolumeId req1"
    "sc_Unmount okEnv (calls ?s1) (getStorageClassImpl okEnv (StorageClass ?v1)) (TargetPath req1) = None"
    by (simp_all add: example_defs)
  let ?i = "getStorageClassImpl okEnv (StorageClass ?v2)"
  have many: "length (Owners ?v2) > 1" and one: "length (Owners ?v1) \<le> 1"
    by simp_all
  have um2: "sc_Unmount okEnv (calls ?s2 @ [Unmount ?i (TargetPath req1)]) ?i (TargetPath req1) = None"
    by (simp add: okEnv_def)
  note t2 = unpublish_owners [OF r h2]
  note t1 = unpublish_owners [OF r h1]
  have "NodeUnpublishVolume okEnv req1 ?s2 = (Inr (), emit (Unmount ?i (TargetPath req1)) ?s2)"
    using t2 many by blast
  then have a: "NodeUnpublishVolume okEnv req1 ?s2
      = (Inr (), ?s2\<lparr>calls := [Unmount (SCName ''hdd'') ''/target'']\<rparr>)"
    by (simp add: emit_def example_defs)
  have "volumesCache (snd (NodeUnpublishVolume okEnv req1 (snd (NodeUnpublishVolume okEnv req1 ?s2))))
      = volumesCache ?s2"
    using t2 many um2 by blast
  then have b: "volumesCache (snd (NodeUnpublishVolume okEnv req1 (snd (NodeUnpublishVolume okEnv req1 ?s2))))
      = [''v1'' \<mapsto> ?v2]"
    by simp
  have "volumesCache (snd (NodeUnpublishVolume okEnv req1 ?s1))
      = (volumesCache ?s1)(VolumeId req1 \<mapsto> ?v1\<lparr>CSIStatus := VolumeReady\<rparr>)"
    using t1 one by blast
  then have c: "volumesCache (snd (NodeUnpublishVolume okEnv req1 ?s1))
      = [''v1'' \<mapsto> vol1\<lparr>CSIStatus := VolumeReady, Owners := [''podA'']\<rparr>]"
    by (simp add: req1_def vol1_def)
  show ?thesis
    using r a b c by simp
qed

subsection \<open>Unpublishing an ephemeral volume\<close>

text \<open>
  C4, as stated, fails: the handler does not always wait and clean up after the delete.
  When \<open>DeleteVolume\<close> reports that the record is already absent, the handler returns
  success at once: the log of calls ends with \<open>DeleteVolume\<close>, with neither
  \<open>WaitStatus\<close> nor \<open>UpdateCRsAfterVolumeDeletion\<close>.
\<close>

theorem unpublish_ephemeral_absent_counterexample:
  "NodeUnpublishVolume (okEnv\<lparr>svc_DeleteVolume := (\<lambda>h i. Some (K8sNotFound ''volumes v1 not found''))\<rparr>)
      req1 (st1\<lparr>volumesCache := [''v1'' \<mapsto> vol1\<lparr>CSIStatus := Published, Ephemeral := True,
                                                   Owners := [''podA'']\<rparr>]\<rparr>)
     = (Inr (),
        st1\<lparr>volumesCache := [''v1'' \<mapsto> vol1\<lparr>CSIStatus := VolumeReady, Ephemeral := True,
                                                Owners := [''podA'']\<rparr>],
            calls := [Unmount (SCName ''hdd'') ''/target'', DeleteVolume ''v1'']\<rparr>)"
  by (simp add: NodeUnpublishVolume_def getFromVolumeCache_def unmount_eq setVolumeStatus_def
      call_defs emit_def Let_def example_defs)

text \<open>
  C4, amended. For a request that passes the argument checks, on an ephemeral volume in
  the cache (under its own id) with at most one owner, whose unmount succeeds:
  \<open>DeleteVolume\<close> is called exactly once. If it fails with an error for which
  \<open>IsNotFound\<close> holds, the handler returns success without waiting or cleaning up; if it
  fails otherwise, the handler returns that very error, again without waiting or
  cleaning up. If it succeeds, \<open>WaitStatus\<close> is called once for \<open>Failed\<close> or
  \<open>Removed\<close>; if that fails the handler returns an internal error without cleaning up;
  otherwise \<open>UpdateCRsAfterVolumeDeletion\<close> is called once and the handler returns
  success.
\<close>

theorem unpublish_ephemeral:
  assumes "VolumeId req \<noteq> []"
    and "TargetPath req \<noteq> []"
    and "volumesCache s (VolumeId req) = Some v"
    and "Id_v v = VolumeId req"
    and "Ephemeral v"
    and "length (Owners v) \<le> 1"
    and "sc_Unmount e (calls s) (getStorageClassImpl e (StorageClass v)) (TargetPath req) = None"
  shows
    "let r = NodeUnpublishVolume e req s;
         h1 = calls s @ [Unmount (getStorageClassImpl e (StorageClass v)) (TargetPath req)];
         h2 = h1 @ [DeleteVolume (VolumeId req)];
         h3 = h2 @ [WaitStatus (VolumeId req) [Failed, Removed]]
     in (\<forall>er. svc_DeleteVolume e h1 (VolumeId req) = Some er \<longrightarrow>
           calls (snd r) = h2 \<and> fst r = (if IsNotFound er then Inr () else Inl er))
      \<and> (svc_DeleteVolume e h1 (VolumeId req) = None \<longrightarrow>
           (\<forall>er. svc_WaitStatus e h2 (VolumeId req) [Failed, Removed] = Some er \<longrightarrow>
              calls (snd r) = h3
              \<and> fst r = Inl (StatusError Internal ''Unable to delete volume''))
         \<and> (svc_WaitStatus e h2 (VolumeId req) [Failed, Removed] = None \<longrightarrow>
              calls (snd r) = h3 @ [UpdateCRsAfterVolumeDeletion (VolumeId req)]
              \<and> fst r = Inr ()))"
  using assms
  by (simp add: NodeUnpublishVolume_def getFromVolumeCache_def unmount_eq Let_def
      setVolumeStatus_def call_defs split: option.splits)

theorem unpublish_ephemeral_witness:
  "Ephemeral (vol1\<lparr>CSIStatus := Published, Ephemeral := True, Owners := [''podA'']\<rparr>)
   \<and> length (Owners (vol1\<lparr>CSIStatus := Published, Ephemeral := True, Owners := [''podA'']\<rparr>)) \<le> 1
   \<and> NodeUnpublishVolume okEnv req1
       (st1\<lparr>volumesCache := [''v1'' \<mapsto> vol1\<lparr>CSIStatus := Published, Ephemeral := True,
                                                    Owners := [''podA'']\<rparr>]\<rparr>)
     = (Inr (),
        st1\<lparr>volumesCache := [''v1'' \<mapsto> vol1\<lparr>CSIStatus := VolumeReady, Ephemeral := True,
                                                Owners := [''podA'']\<rparr>],
            calls := [Unmount (SCName ''hdd'') ''/target'', DeleteVolume ''v1'',
                      WaitStatus ''v1'' [Failed, Removed], UpdateCRsAfterVolumeDeletion ''v1'']\<rparr>)
   \<and> fst (NodeUnpublishVolume (okEnv\<lparr>svc_DeleteVolume := (\<lambda>h i. Some (PlainError ''timeout''))\<rparr>) req1
       (st1\<lparr>volumesCache := [''v1'' \<mapsto> vol1\<lparr>CSIStatus := Published, Ephemeral := True,
                                                    Owners := [''podA'']\<rparr>]\<rparr>))
     = Inl (PlainError ''timeout'')
   \<and> calls (snd (NodeUnpublishVolume (okEnv\<lparr>svc_DeleteVolume := (\<lambda>h i. Some (PlainError ''timeout''))\<rparr>) req1
       (st1\<lparr>volumesCache := [''v1'' \<mapsto> vol1\<lparr>CSIStatus := Published, Ephemeral := True,
                                                    Owners := [''podA'']\<rparr>]\<rparr>)))
     = [Unmount (SCName ''hdd'') ''/target'', DeleteVolume ''v1'']
   \<and> fst (NodeUnpublishVolume (okEnv\<lparr>svc_WaitStatus := (\<lambda>h i sts. Some (PlainError ''timeout''))\<rparr>) req1
       (st1\<lparr>volumesCache := [''v1'' \<mapsto> vol1\<lparr>CSIStatus := Published, Ephemeral := True,
                                                    Owners := [''podA'']\<rparr>]\<rparr>))
     = Inl (StatusError Internal ''Unable to delete volume'')
   \<and> calls (snd (NodeUnpublishVolume (okEnv\<lparr>svc_WaitStatus := (\<lambda>h i sts. Some (PlainError ''timeout''))\<rparr>) req1
       (st1\<lparr>volumesCache := [''v1'' \<mapsto> vol1\<lparr>CSIStatus := Published, Ephemeral := True,
                                                    Owners := [''podA'']\<rparr>]\<rparr>)))
     = [Unmount (SCName ''hdd'') ''/target'', DeleteVolume ''v1'', WaitStatus ''v1'' [Failed, Removed]]"
proof -
  let ?v = "vol1\<lparr>CSIStatus := Published, Ephemeral := True, Owners := [''podA'']\<rparr>"
  let ?s = "st1\<lparr>volumesCache := [''v1'' \<mapsto> ?v]\<rparr>"
  let ?d = "okEnv\<lparr>svc_DeleteVolume := (\<lambda>h i. Some (PlainError ''timeout''))\<rparr>"
  let ?w = "okEnv\<lparr>svc_WaitStatus := (\<lambda>h i sts. Some (PlainError ''timeout''))\<rparr>"
  have h: "VolumeId req1 \<noteq> []" "TargetPath req1 \<noteq> []"
    "volumesCache ?s (VolumeId req1) = Some ?v" "Id_v ?v = VolumeId req1"
    "Ephemeral ?v" "length (Owners ?v) \<le> 1"
    by (simp_all add: example_defs)
  have u: "sc_Unmount okEnv (calls ?s) (getStorageClassImpl okEnv (StorageClass ?v)) (TargetPath req1) = None"
    "sc_Unmount ?d (calls ?s) (getStorageClassImpl ?d (StorageClass ?v)) (TargetPath req1) = None"
    "sc_Unmount ?w (calls ?s) (getStorageClassImpl ?w (StorageClass ?v)) (TargetPath req1) = None"
    by (simp_all add: okEnv_def)
  have c: "volumesCache (snd (NodeUnpublishVolume okEnv req1 ?s)) =
      [''v1'' \<mapsto> vol1\<lparr>CSIStatus := VolumeReady, Ephemeral := True, Owners := [''podA'']\<rparr>]"
    "drivesCache (snd (NodeUnpublishVolume okEnv req1 ?s)) = drivesCache st1"
    by (simp_all add: NodeUnpublishVolume_def getFromVolumeCache_def unmount_eq setVolumeStatus_def
        call_defs Let_def example_defs)
  have a: "calls (snd (NodeUnpublishVolume okEnv req1 ?s)) =
        [Unmount (SCName ''hdd'') ''/target'', DeleteVolume ''v1'',
         WaitStatus ''v1'' [Failed, Removed], UpdateCRsAfterVolumeDeletion ''v1'']
      \<and> fst (NodeUnpublishVolume okEnv req1 ?s) = Inr ()"
    using unpublish_ephemeral [OF h u(1)]
    by (simp add: Let_def example_defs)
  have b: "calls (snd (NodeUnpublishVolume ?d req1 ?s)) =
        [Unmount (SCName ''hdd'') ''/target'', DeleteVolume ''v1'']
      \<and> fst (NodeUnpublishVolume ?d req1 ?s) = Inl (PlainError ''timeout'')"
    using unpublish_ephemeral [OF h u(2)]
    by (simp add: Let_def example_defs)
  have d: "calls (snd (NodeUnpublishVolume ?w req1 ?s)) =
        [Unmount (SCName ''hdd'') ''/target'', DeleteVolume ''v1'', WaitStatus ''v1'' [Failed, Removed]]
      \<and> fst (NodeUnpublishVolume ?w req1 ?s) = Inl (StatusError Internal ''Unable to delete volume'')"
    using unpublish_ephemeral [OF h u(3)]
    by (simp add: Let_def example_defs)
  show ?thesis
    using h a b c d by (simp add: prod_eq_iff state.equality st1_def)
qed

subsection \<open>Publishing a Failed volume\<close>

text \<open>
  C10. For a publish request that reaches the lookup of the volume (the argument checks
  pass and \<open>publishSource\<close> returns a source), whose volume is in the cache with status
  \<open>Failed\<close> and whose context names a pod: the handler calls \<open>addVolumeOwner\<close> for
  that pod before it looks at the status, and returns the error "reached failed status"
  together with the state \<open>addVolumeOwner\<close> left. Unless the recording itself failed,
  the pod is among the owners of the cached volume afterwards, and the status is still
  \<open>Failed\<close>.
\<close>

theorem publish_failed_volume_records_owner:
  assumes "VolumeCapability req \<noteq> None"
    and "VolumeId req \<noteq> []"
    and "TargetPath req \<noteq> []"
    and ps: "publishSource e n req s = Inr (src, b, s2)"
    and v: "volumesCache s (VolumeId req) = Some v"
    and "CSIStatus v = Failed"
    and "VolumeContext req PodNameKey = Some pod"
  shows
    "NodePublishVolume e n req s =
       (Inl (PlainError (''corresponding volume CR '' @ Id_v v @ '' reached failed status'')),
        snd (addVolumeOwner e (VolumeId req) pod s2))
     \<and> calls (snd (NodePublishVolume e n req s)) = calls s2 @ [AddVolumeOwner (VolumeId req) pod]
     \<and> (vm_addVolumeOwner e (calls s2) (VolumeId req) pod = None \<longrightarrow>
          (\<exists>v'. volumesCache (snd (NodePublishVolume e n req s)) (VolumeId req) = Some v'
                \<and> pod \<in> set (Owners v') \<and> CSIStatus v' = Failed))"
proof -
  have c2: "volumesCache s2 (VolumeId req) = Some v"
    using publishSource_caches(1) [OF ps] v by simp
  have r: "NodePublishVolume e n req s =
       (Inl (PlainError (''corresponding volume CR '' @ Id_v v @ '' reached failed status'')),
        snd (addVolumeOwner e (VolumeId req) pod s2))"
    using assms c2 by (simp add: NodePublishVolume_def getFromVolumeCache_def Let_def)
  show ?thesis
    using c2 assms(6) by (simp add: r addVolumeOwner_cache)
qed

theorem publish_failed_volume_records_owner_witness:
  "VolumeCapability req1 \<noteq> None \<and> VolumeId req1 \<noteq> [] \<and> TargetPath req1 \<noteq> []
   \<and> publishSource okEnv ''node-1'' req1 (st1\<lparr>volumesCache := [''v1'' \<mapsto> vol1\<lparr>CSIStatus := Failed\<rparr>]\<rparr>)
       = Inr (''/stage'', True, st1\<lparr>volumesCache := [''v1'' \<mapsto> vol1\<lparr>CSIStatus := Failed\<rparr>]\<rparr>)
   \<and> VolumeContext req1 PodNameKey = Some ''podA''
   \<and> NodePublishVolume okEnv ''node-1'' req1 (st1\<lparr>volumesCache := [''v1'' \<mapsto> vol1\<lparr>CSIStatus := Failed\<rparr>]\<rparr>)
       = (Inl (PlainError ''corresponding volume CR v1 reached failed status''),
          st1\<lparr>volumesCache := [''v1'' \<mapsto> vol1\<lparr>CSIStatus := Failed, Owners := [''podA'']\<rparr>],
              calls := [AddVolumeOwner ''v1'' ''podA'']\<rparr>)"
proof -
  let ?s = "st1\<lparr>volumesCache := [''v1'' \<mapsto> vol1\<lparr>CSIStatus := Failed\<rparr>]\<rparr>"
  have h: "VolumeCapability req1 \<noteq> None" "VolumeId req1 \<noteq> []" "TargetPath req1 \<noteq> []"
    "publishSource okEnv ''node-1'' req1 ?s = Inr (''/stage'', True, ?s)"
    "volumesCache ?s (VolumeId req1) = Some (vol1\<lparr>CSIStatus := Failed\<rparr>)"
    "CSIStatus (vol1\<lparr>CSIStatus := Failed\<rparr>) = Failed"
    "VolumeContext req1 PodNameKey = Some ''podA''"
    by (simp_all add: publishSource_def inlineFlag_def PodNameKey_def EphemeralKey_def Let_def
        example_defs)
  have a: "snd (addVolumeOwner okEnv (VolumeId req1) ''podA'' ?s) =
      st1\<lparr>volumesCache := [''v1'' \<mapsto> vol1\<lparr>CSIStatus := Failed, Owners := [''podA'']\<rparr>],
          calls := [AddVolumeOwner ''v1'' ''podA'']\<rparr>"
    by (simp add: addVolumeOwner_def emit_def Let_def example_defs)
  have i: "Id_v (vol1\<lparr>CSIStatus := Failed\<rparr>) = ''v1''"
    by (simp add: vol1_def)
  show ?thesis
    using h publish_failed_volume_records_owner [OF h, THEN conjunct1]
    by (simp add: a i)
qed

end
